theory Spec2Isabelle
  imports Complex_Main
begin

section \<open>JavaScript values used by the wallet authentication controller\<close>

text \<open>
  Numbers. JavaScript numbers are IEEE doubles; the controller only subtracts, divides,
  multiplies and compares epoch-millisecond readings and small constants, so a number is
  modelled as an exact rational, with \<open>NaN\<close> kept apart because \<open>now - undefined\<close> is
  \<open>NaN\<close> and every comparison with \<open>NaN\<close> is false.
\<close>

datatype jsnum = NaN | Num rat

fun js_sub :: "jsnum \<Rightarrow> jsnum \<Rightarrow> jsnum" where
  "js_sub (Num a) (Num b) = Num (a - b)"
| "js_sub _ _ = NaN"

fun js_gt :: "jsnum \<Rightarrow> jsnum \<Rightarrow> bool" where
  "js_gt (Num a) (Num b) = (b < a)"
| "js_gt _ _ = False"

text \<open>Values that \<open>JSON.parse\<close> returns, and \<open>undefined\<close> for a property that is missing.\<close>

datatype jsval =
    JUndefined
  | JNull
  | JBool bool
  | JNum rat
  | JStr string
  | JArr "jsval list"
  | JObj "(string \<times> jsval) list"

text \<open>
  The built-ins of the host that the controller calls. \<open>JSON_parse\<close> is \<open>None\<close> where
  \<open>JSON.parse\<close> throws a SyntaxError. \<open>ToNumber_other\<close> is the numeric coercion of a
  string, array or object operand of \<open>-\<close>; the coercion of the other values is written out
  in \<open>ToNumber\<close>.
\<close>

record platform =
  JSON_parse :: "string \<Rightarrow> jsval option"
  JSON_stringify :: "jsval \<Rightarrow> string"
  ToNumber_other :: "jsval \<Rightarrow> jsnum"

fun ToNumber :: "platform \<Rightarrow> jsval \<Rightarrow> jsnum" where
  "ToNumber P JUndefined = NaN"
| "ToNumber P JNull = Num 0"
| "ToNumber P (JBool b) = Num (if b then 1 else 0)"
| "ToNumber P (JNum r) = Num r"
| "ToNumber P v = ToNumber_other P v"

text \<open>
  Reading the property \<open>timestamp\<close> or \<open>walletType\<close> of a parsed value: \<open>None\<close> is the
  TypeError of reading a property of \<open>null\<close> or \<open>undefined\<close>; a boolean, number, string or
  array has no property of either name, so the read gives \<open>undefined\<close>.
\<close>

fun get_prop :: "jsval \<Rightarrow> string \<Rightarrow> jsval option" where
  "get_prop JUndefined name = None"
| "get_prop JNull name = None"
| "get_prop (JObj kvs) name =
     (case map_of kvs name of None \<Rightarrow> Some JUndefined | Some v \<Rightarrow> Some v)"
| "get_prop v name = Some JUndefined"

text \<open>
  A public key as a provider hands it over: missing, \<open>null\<close>, a string, or a key object
  whose \<open>toString()\<close> gives the text it carries. Objects are truthy; a string is truthy
  when it is not empty.
\<close>

datatype keyval = KUndefined | KNull | KStr string | KObj string

fun truthy :: "keyval \<Rightarrow> bool" where
  "truthy KUndefined = False"
| "truthy KNull = False"
| "truthy (KStr s) = (s \<noteq> [])"
| "truthy (KObj s) = True"

fun toString :: "keyval \<Rightarrow> string" where
  "toString (KStr s) = s"
| "toString (KObj s) = s"
| "toString KUndefined = []"
| "toString KNull = []"

text \<open>
  What \<open>await provider.connect()\<close> resolves to: a falsy value, or a truthy value whose
  \<open>publicKey\<close> property reads as the given key (\<open>KUndefined\<close> when it has none).
\<close>

datatype response = NoResponse | Resp keyval

text \<open>
  What a \<open>catch\<close> block of an adapter receives: a thrown object with its \<open>code\<close> and
  \<open>message\<close> properties as they read (\<open>None\<close> is \<open>undefined\<close>), or a thrown \<open>null\<close> or
  \<open>undefined\<close>. \<open>new Error(m)\<close> has no \<open>code\<close> and the message \<open>m\<close>.
\<close>

datatype thrown = Thrown "int option" "string option" | ThrownNullish

definition new_Error :: "string \<Rightarrow> thrown" where
  "new_Error m = Thrown None (Some m)"

text \<open>
  What an adapter throws to its caller: the \<open>new Error(m)\<close> its handler builds, or the
  TypeError the engine raises when the handler reads \<open>error.code\<close> of \<open>null\<close> or calls
  \<open>includes\<close> on a missing message.
\<close>

datatype failure = Error string | TypeError

text \<open>\<open>String.prototype.includes\<close>: the second text occurs in the first.\<close>

fun startsWith :: "string \<Rightarrow> string \<Rightarrow> bool" where
  "startsWith s [] = True"
| "startsWith [] (c # cs) = False"
| "startsWith (x # xs) (c # cs) = (x = c \<and> startsWith xs cs)"

fun includes_str :: "string \<Rightarrow> string \<Rightarrow> bool" where
  "includes_str [] sub = (sub = [])"
| "includes_str (x # xs) sub = (startsWith (x # xs) sub \<or> includes_str xs sub)"

section \<open>The browser environment\<close>

text \<open>
  The injected providers, with the properties the controller reads and the calls it
  awaits. A call is given by its settled outcome: \<open>Inl\<close> what it rejects with, \<open>Inr\<close>
  what it resolves to; a call that never settles leaves the attempt in flight and has
  no outcome here. \<open>sol_connect\<close> takes the \<open>onlyIfTrusted\<close> flag, \<open>eth_request\<close> the
  method name. The providers belong to the host: a property holds the value the
  controller finds when it reads it.
\<close>

record solana_provider =
  sol_isPhantom :: bool
  sol_isConnected :: bool
  sol_connect :: "bool \<Rightarrow> thrown + response"

record ethereum_provider =
  eth_isMetaMask :: bool
  eth_request :: "string \<Rightarrow> thrown + string list option"

record solflare_wallet =
  sfw_publicKey :: keyval

record solflare_provider =
  sf_isConnected :: bool
  sf_disconnect :: "thrown option"
  sf_connect :: "thrown + response"
  sf_publicKey :: keyval
  sf_wallet :: "solflare_wallet option"

record window =
  solana :: "solana_provider option"
  ethereum :: "ethereum_provider option"
  solflare :: "solflare_provider option"

text \<open>
  \<open>localStorage\<close>: the stored items, and whether the store refuses a write (a full or
  disabled store makes \<open>setItem\<close> throw, which \<open>storeWalletConnection\<close> catches:
  \<open>setItem\<close> is \<open>None\<close> then). \<open>getItem\<close> and \<open>removeItem\<close> are taken not to throw.
\<close>

record storage =
  items :: "string \<Rightarrow> string option"
  rejects_writes :: bool

definition getItem :: "storage \<Rightarrow> string \<Rightarrow> string option" where
  "getItem st k = items st k"

definition setItem :: "storage \<Rightarrow> string \<Rightarrow> string \<Rightarrow> storage option" where
  "setItem st k v = (if rejects_writes st then None else Some (st\<lparr>items := (items st)(k \<mapsto> v)\<rparr>))"

definition removeItem :: "storage \<Rightarrow> string \<Rightarrow> storage" where
  "removeItem st k = st\<lparr>items := (items st)(k := None)\<rparr>"

definition storage_key :: string where
  "storage_key = ''micro_wallet_connection''"

record element =
  display :: string
  classList :: "string list"

definition classList_add :: "string \<Rightarrow> element \<Rightarrow> element" where
  "classList_add c e = e\<lparr>classList := List.insert c (classList e)\<rparr>"

definition classList_remove :: "string \<Rightarrow> element \<Rightarrow> element" where
  "classList_remove c e = e\<lparr>classList := removeAll c (classList e)\<rparr>"

record button =
  walletName :: string
  connectText :: string
  disabled :: bool
  pointerEvents :: string
  opacity :: string
  background :: string
  borderColor :: string
  boxShadow :: string

text \<open>
  The named regions of the page. The progress bar is present with the number \<open>p\<close> of its
  width \<open>p%\<close>, the percentage label with the integer \<open>n\<close> of its text \<open>n%\<close>.
\<close>

record document =
  loadingScreen :: "element option"
  authScreen :: "element option"
  mainContent :: "element option"
  progressBar :: "rat option"
  loadingPercentage :: "int option"
  buttons :: "string \<Rightarrow> button option"

record wallet =
  type :: string
  publicKey :: string
  address :: string

datatype event = walletConnected wallet | walletDisconnected

text \<open>The callbacks the controller hands to \<open>setTimeout\<close>, each with what it closes over.\<close>

datatype callback =
    UpdateProgress rat
  | TransitionToAuth
  | TransitionToMainContent
  | ResetButton string string string

text \<open>
  The controller's fields together with the environment it acts on. \<open>Date.now()\<close> reads
  the next value of \<open>clock\<close>; \<open>dispatched\<close> lists the events given to
  \<open>window.dispatchEvent\<close>, oldest first; \<open>timers\<close> the pending \<open>setTimeout\<close> calls with
  their delays.
\<close>

record state =
  loadingDuration :: rat
  isAuthenticated :: bool
  connectedWallet :: "wallet option"
  localStorage :: storage
  window :: window
  document :: document
  dispatched :: "event list"
  timers :: "(callback \<times> rat) list"
  clock :: "nat \<Rightarrow> rat"
  clock_reads :: nat

definition Date_now :: "state \<Rightarrow> rat \<times> state" where
  "Date_now s = (clock s (clock_reads s), s\<lparr>clock_reads := Suc (clock_reads s)\<rparr>)"

definition dispatchEvent :: "event \<Rightarrow> state \<Rightarrow> state" where
  "dispatchEvent e s = s\<lparr>dispatched := dispatched s @ [e]\<rparr>"

definition setTimeout :: "callback \<Rightarrow> rat \<Rightarrow> state \<Rightarrow> state" where
  "setTimeout cb delay s = s\<lparr>timers := timers s @ [(cb, delay)]\<rparr>"

section \<open>The controller (wallet-auth.js)\<close>

text \<open>
  The constructor's \<open>options.loadingDuration || 2000\<close>: a missing or zero option gives the
  default, so the duration that \<open>updateProgress\<close> divides by is never zero.
\<close>

definition constructor_loadingDuration :: "rat option \<Rightarrow> rat" where
  "constructor_loadingDuration opt =
     (case opt of None \<Rightarrow> 2000 | Some d \<Rightarrow> if d = 0 then 2000 else d)"

text \<open>
  \<open>updateProgress\<close>, the closure of \<open>startLoadingSequence\<close> over \<open>startTime\<close>: one sample
  of the clock, written to the progress bar and the percentage label, and the next timer.
  \<open>progress_of\<close> is its expression \<open>Math.min((elapsed / this.loadingDuration) * 100, 100)\<close>.
\<close>

definition progress_of :: "rat \<Rightarrow> rat \<Rightarrow> rat" where
  "progress_of duration elapsed = min ((elapsed / duration) * 100) 100"

definition updateProgress :: "rat \<Rightarrow> state \<Rightarrow> state" where
  "updateProgress startTime s =
     (let (t, s1) = Date_now s;
          elapsed = t - startTime;
          progress = progress_of (loadingDuration s1) elapsed;
          s2 = s1\<lparr>document := (document s1)
                 \<lparr>progressBar := Some progress, loadingPercentage := Some \<lfloor>progress\<rfloor>\<rparr>\<rparr>
      in if progress < 100 then setTimeout (UpdateProgress startTime) 50 s2
         else setTimeout TransitionToAuth 500 s2)"

definition startLoadingSequence :: "state \<Rightarrow> state" where
  "startLoadingSequence s =
     (if progressBar (document s) = None \<or> loadingPercentage (document s) = None
         \<or> loadingScreen (document s) = None \<or> authScreen (document s) = None
      then s
      else (let (startTime, s1) = Date_now s in updateProgress startTime s1))"

definition verifyWalletConnection :: "jsval \<Rightarrow> state \<Rightarrow> bool \<times> state" where
  "verifyWalletConnection walletType s =
     (if walletType = JStr ''phantom'' then
        (case solana (window s) of
           None \<Rightarrow> (False, s)
         | Some p \<Rightarrow>
             if sol_isPhantom p then
               (case sol_connect p True of
                  Inl err \<Rightarrow> (False, s)
                | Inr NoResponse \<Rightarrow> (False, s)
                | Inr (Resp k) \<Rightarrow>
                    if truthy k then
                      (True, s\<lparr>connectedWallet :=
                                  Some \<lparr>type = ''phantom'', publicKey = toString k,
                                        address = toString k\<rparr>,
                                isAuthenticated := True\<rparr>)
                    else (False, s))
             else (False, s))
      else if walletType = JStr ''metamask'' then
        (case ethereum (window s) of
           None \<Rightarrow> (False, s)
         | Some p \<Rightarrow>
             if eth_isMetaMask p then
               (case eth_request p ''eth_accounts'' of
                  Inl err \<Rightarrow> (False, s)
                | Inr None \<Rightarrow> (False, s)
                | Inr (Some []) \<Rightarrow> (False, s)
                | Inr (Some (a # as)) \<Rightarrow>
                    (True, s\<lparr>connectedWallet :=
                                Some \<lparr>type = ''metamask'', publicKey = a, address = a\<rparr>,
                              isAuthenticated := True\<rparr>))
             else (False, s))
      else if walletType = JStr ''solflare'' then
        (case solflare (window s) of
           None \<Rightarrow> (False, s)
         | Some p \<Rightarrow>
             if sf_isConnected p then
               (if truthy (sf_publicKey p) then
                  (True, s\<lparr>connectedWallet :=
                              Some \<lparr>type = ''solflare'', publicKey = toString (sf_publicKey p),
                                    address = toString (sf_publicKey p)\<rparr>,
                            isAuthenticated := True\<rparr>)
                else (False, s))
             else (False, s))
      else (False, s))"

text \<open>
  \<open>checkExistingConnection\<close>. An empty stored text is falsy and returns early like a
  missing item. The \<open>catch\<close> branch (a SyntaxError of \<open>JSON.parse\<close>, a TypeError of reading
  a property of \<open>null\<close>) removes the item and returns false.
\<close>

definition checkExistingConnection :: "platform \<Rightarrow> state \<Rightarrow> bool \<times> state" where
  "checkExistingConnection P s =
     (case getItem (localStorage s) storage_key of
        None \<Rightarrow> (False, s)
      | Some storedConnection \<Rightarrow>
          if storedConnection = [] then (False, s)
          else
            (case JSON_parse P storedConnection of
               None \<Rightarrow> (False, s\<lparr>localStorage := removeItem (localStorage s) storage_key\<rparr>)
             | Some connectionData \<Rightarrow>
                 (let (now, s1) = Date_now s in
                  case get_prop connectionData ''timestamp'' of
                    None \<Rightarrow>
                      (False, s1\<lparr>localStorage := removeItem (localStorage s1) storage_key\<rparr>)
                  | Some ts \<Rightarrow>
                      if js_gt (js_sub (Num now) (ToNumber P ts)) (Num (24 * 60 * 60 * 1000))
                      then (False, s1\<lparr>localStorage := removeItem (localStorage s1) storage_key\<rparr>)
                      else
                        (case get_prop connectionData ''walletType'' of
                           None \<Rightarrow>
                             (False,
                              s1\<lparr>localStorage := removeItem (localStorage s1) storage_key\<rparr>)
                         | Some walletType \<Rightarrow> verifyWalletConnection walletType s1))))"

definition skipToMainContent :: "state \<Rightarrow> state" where
  "skipToMainContent s =
     (case (loadingScreen (document s), authScreen (document s), mainContent (document s)) of
        (Some ls, Some au, Some mc) \<Rightarrow>
          (let s1 = s\<lparr>document := (document s)
                 \<lparr>loadingScreen := Some (classList_remove ''fade-out'' (ls\<lparr>display := ''none''\<rparr>)),
                  authScreen := Some (classList_add ''hidden'' (au\<lparr>display := ''none''\<rparr>)),
                  mainContent := Some (classList_remove ''hidden'' (mc\<lparr>display := []\<rparr>))\<rparr>\<rparr>
           in case connectedWallet s1 of
                None \<Rightarrow> s1
              | Some w \<Rightarrow> dispatchEvent (walletConnected w) s1)
      | _ \<Rightarrow> s)"

text \<open>
  \<open>init\<close>. Its last two calls, \<open>setupWalletButtons\<close> and \<open>setupWalletDetection\<close>, register
  click listeners and detection polls whose callbacks only log; these polls are left out
  of \<open>timers\<close>, which lists the timers of the loading and connect flows.
\<close>

definition init :: "platform \<Rightarrow> state \<Rightarrow> state" where
  "init P s =
     (let (hasExistingConnection, s1) = checkExistingConnection P s
      in if hasExistingConnection then skipToMainContent s1 else startLoadingSequence s1)"

subsection \<open>The interactive adapters\<close>

text \<open>
  Each adapter is a \<open>try\<close> block and its \<open>catch\<close> handler. The \<open>throw new Error(...)\<close>
  statements of the \<open>try\<close> block are caught by the adapter's own handler, like the errors
  of the provider.
\<close>

definition response_publicKey :: "response \<Rightarrow> keyval" where
  "response_publicKey r = (case r of NoResponse \<Rightarrow> KUndefined | Resp k \<Rightarrow> k)"

definition phantom_not_detected :: string where
  "phantom_not_detected =
     ''Phantom wallet not detected. Please ensure it is installed and enabled.''"

definition solflare_not_detected :: string where
  "solflare_not_detected =
     ''Solflare wallet not detected. Please ensure it is installed and enabled.''"

definition metamask_not_detected :: string where
  "metamask_not_detected =
     ''MetaMask wallet not detected. Please ensure it is installed and enabled.''"

definition connectPhantom_try :: "state \<Rightarrow> thrown + wallet" where
  "connectPhantom_try s =
     (case solana (window s) of
        None \<Rightarrow> Inl (new_Error phantom_not_detected)
      | Some p \<Rightarrow>
          if \<not> sol_isPhantom p then Inl (new_Error phantom_not_detected)
          else
            (case sol_connect p False of
               Inl err \<Rightarrow> Inl err
             | Inr response \<Rightarrow>
                 if truthy (response_publicKey response) then
                   Inr \<lparr>type = ''phantom'',
                        publicKey = toString (response_publicKey response),
                        address = toString (response_publicKey response)\<rparr>
                 else Inl (new_Error ''Failed to get public key from Phantom'')))"

fun connectPhantom_catch :: "thrown \<Rightarrow> failure" where
  "connectPhantom_catch ThrownNullish = TypeError"
| "connectPhantom_catch (Thrown code message) =
     (if code = Some 4001 then Error ''Connection rejected by user''
      else case message of
             None \<Rightarrow> TypeError
           | Some m \<Rightarrow>
               if includes_str m ''User rejected'' then Error ''Connection rejected by user''
               else Error (''Connection failed: '' @ m))"

definition connectPhantom :: "state \<Rightarrow> failure + wallet" where
  "connectPhantom s =
     (case connectPhantom_try s of
        Inl error \<Rightarrow> Inl (connectPhantom_catch error)
      | Inr w \<Rightarrow> Inr w)"

text \<open>
  Solflare: a provider that reports itself connected is disconnected first, and an error
  of that call is only logged. The key is looked for in the response, then in the
  provider's own property, then in its nested wallet object.
\<close>

definition connectSolflare_try :: "state \<Rightarrow> thrown + wallet" where
  "connectSolflare_try s =
     (case solflare (window s) of
        None \<Rightarrow> Inl (new_Error solflare_not_detected)
      | Some p \<Rightarrow>
          (let disconnectError = (if sf_isConnected p then sf_disconnect p else None) in
           case sf_connect p of
             Inl err \<Rightarrow> Inl err
           | Inr response \<Rightarrow>
               (let publicKey =
                      (if truthy (response_publicKey response) then response_publicKey response
                       else if truthy (sf_publicKey p) then sf_publicKey p
                       else case sf_wallet p of
                              None \<Rightarrow> KNull
                            | Some w \<Rightarrow> if truthy (sfw_publicKey w) then sfw_publicKey w else KNull)
                in if truthy publicKey then
                     Inr \<lparr>type = ''solflare'', publicKey = toString publicKey,
                          address = toString publicKey\<rparr>
                   else Inl (new_Error ''Failed to get public key from Solflare''))))"

fun connectSolflare_catch :: "thrown \<Rightarrow> failure" where
  "connectSolflare_catch ThrownNullish = TypeError"
| "connectSolflare_catch (Thrown code message) =
     (if code = Some 4001 then Error ''Connection rejected by user''
      else case message of
             None \<Rightarrow> TypeError
           | Some m \<Rightarrow>
               if includes_str m ''rejected'' then Error ''Connection rejected by user''
               else Error (''Connection failed: '' @ m))"

definition connectSolflare :: "state \<Rightarrow> failure + wallet" where
  "connectSolflare s =
     (case connectSolflare_try s of
        Inl error \<Rightarrow> Inl (connectSolflare_catch error)
      | Inr w \<Rightarrow> Inr w)"

definition connectMetaMask_try :: "state \<Rightarrow> thrown + wallet" where
  "connectMetaMask_try s =
     (case ethereum (window s) of
        None \<Rightarrow> Inl (new_Error metamask_not_detected)
      | Some p \<Rightarrow>
          if \<not> eth_isMetaMask p then Inl (new_Error metamask_not_detected)
          else
            (case eth_request p ''eth_requestAccounts'' of
               Inl err \<Rightarrow> Inl err
             | Inr None \<Rightarrow> Inl (new_Error ''No accounts found'')
             | Inr (Some []) \<Rightarrow> Inl (new_Error ''No accounts found'')
             | Inr (Some (a # as)) \<Rightarrow>
                 Inr \<lparr>type = ''metamask'', publicKey = a, address = a\<rparr>))"

text \<open>The template literal prints a missing message as the text \<open>undefined\<close>.\<close>

fun connectMetaMask_catch :: "thrown \<Rightarrow> failure" where
  "connectMetaMask_catch ThrownNullish = TypeError"
| "connectMetaMask_catch (Thrown code message) =
     (if code = Some 4001 then Error ''Connection rejected by user''
      else if code = Some (- 32002) then Error ''Connection request already pending''
      else Error (''Connection failed: ''
                  @ (case message of None \<Rightarrow> ''undefined'' | Some m \<Rightarrow> m)))"

definition connectMetaMask :: "state \<Rightarrow> failure + wallet" where
  "connectMetaMask s =
     (case connectMetaMask_try s of
        Inl error \<Rightarrow> Inl (connectMetaMask_catch error)
      | Inr w \<Rightarrow> Inr w)"

subsection \<open>Session persistence and the connect flow\<close>

definition connectionData_of :: "wallet \<Rightarrow> rat \<Rightarrow> jsval" where
  "connectionData_of w now =
     JObj [(''walletType'', JStr (type w)), (''timestamp'', JNum now),
           (''publicKey'', JStr (publicKey w)), (''address'', JStr (address w))]"

definition storeWalletConnection :: "platform \<Rightarrow> wallet \<Rightarrow> state \<Rightarrow> state" where
  "storeWalletConnection P w s =
     (let (now, s1) = Date_now s;
          connectionData = connectionData_of w now
      in case setItem (localStorage s1) storage_key (JSON_stringify P connectionData) of
           None \<Rightarrow> s1
         | Some st \<Rightarrow> s1\<lparr>localStorage := st\<rparr>)"

definition clearStoredConnection :: "state \<Rightarrow> state" where
  "clearStoredConnection s = s\<lparr>localStorage := removeItem (localStorage s) storage_key\<rparr>"

definition set_button :: "string \<Rightarrow> button \<Rightarrow> state \<Rightarrow> state" where
  "set_button walletType b s =
     s\<lparr>document := (document s)\<lparr>buttons := (buttons (document s))(walletType \<mapsto> b)\<rparr>\<rparr>"

text \<open>The \<open>switch\<close> of \<open>connectWallet\<close> over the wallet type.\<close>

definition connectWallet_switch :: "string \<Rightarrow> state \<Rightarrow> failure + wallet" where
  "connectWallet_switch walletType s =
     (if walletType = ''phantom'' then connectPhantom s
      else if walletType = ''solflare'' then connectSolflare s
      else if walletType = ''metamask'' then connectMetaMask s
      else Inl (Error ''Unsupported wallet type''))"

definition connecting :: "button \<Rightarrow> button" where
  "connecting b = b\<lparr>walletName := ''CONNECTING...'', connectText := ''WAIT...'',
                    disabled := True, pointerEvents := ''none'', opacity := ''0.7''\<rparr>"

definition connection_failed :: "button \<Rightarrow> button" where
  "connection_failed b =
     b\<lparr>walletName := ''CONNECTION FAILED'', connectText := ''ERROR'',
       background := ''linear-gradient(135deg, rgba(255, 0, 64, 0.2), rgba(255, 0, 64, 0.1))'',
       borderColor := ''#ff0040''\<rparr>"

definition connectWallet :: "platform \<Rightarrow> string \<Rightarrow> state \<Rightarrow> state" where
  "connectWallet P walletType s =
     (case buttons (document s) walletType of
        None \<Rightarrow> s
      | Some b \<Rightarrow>
          (let originalName = walletName b;
               originalConnect = connectText b;
               s1 = set_button walletType (connecting b) s
           in case connectWallet_switch walletType s1 of
                Inr w \<Rightarrow>
                  (let s2 = s1\<lparr>connectedWallet := Some w, isAuthenticated := True\<rparr>;
                       s3 = storeWalletConnection P w s2;
                       s4 = set_button walletType
                              ((connecting b)\<lparr>walletName := ''CONNECTED'', connectText := ''SUCCESS'',
                                 background := ''linear-gradient(135deg, rgba(0, 136, 254, 0.3), rgba(0, 136, 254, 0.1))'',
                                 borderColor := ''#0088fe'',
                                 boxShadow := ''0 0 20px rgba(0, 136, 254, 0.6)''\<rparr>) s3;
                       s5 = dispatchEvent (walletConnected w) s4
                   in setTimeout TransitionToMainContent 1500 s5)
              | Inl error \<Rightarrow>
                  (let s2 = set_button walletType (connection_failed (connecting b)) s1
                   in setTimeout (ResetButton walletType originalName originalConnect) 3000 s2)))"

definition forceReauth :: "state \<Rightarrow> state" where
  "forceReauth s =
     (let s1 = s\<lparr>isAuthenticated := False, connectedWallet := None\<rparr>;
          s2 = clearStoredConnection s1;
          s3 = dispatchEvent walletDisconnected s2
      in case (loadingScreen (document s3), authScreen (document s3), mainContent (document s3)) of
           (Some ls, Some au, Some mc) \<Rightarrow>
             (let d1 = (document s3)
                    \<lparr>mainContent := Some ((classList_add ''hidden'' mc)\<lparr>display := ''none''\<rparr>),
                     authScreen := Some ((classList_add ''hidden'' au)\<lparr>display := ''none''\<rparr>),
                     loadingScreen := Some (classList_remove ''fade-out'' (ls\<lparr>display := ''flex''\<rparr>))\<rparr>;
                  d2 = (if progressBar d1 \<noteq> None \<and> loadingPercentage d1 \<noteq> None
                        then d1\<lparr>progressBar := Some 0, loadingPercentage := Some 0\<rparr>
                        else d1)
              in startLoadingSequence (s3\<lparr>document := d2\<rparr>))
         | _ \<Rightarrow> s3)"

section \<open>The controller without session persistence (the second copy of the source)\<close>

text \<open>
  The second copy of the controller has the same adapters and the same loading sequence.
  Its \<open>init\<close> always starts the loading sequence, its \<open>connectWallet\<close> stores nothing and
  its \<open>forceReauth\<close> neither clears the store nor dispatches an event.
\<close>

definition init_legacy :: "state \<Rightarrow> state" where
  "init_legacy s = startLoadingSequence s"

definition connectWallet_legacy :: "string \<Rightarrow> state \<Rightarrow> state" where
  "connectWallet_legacy walletType s =
     (case buttons (document s) walletType of
        None \<Rightarrow> s
      | Some b \<Rightarrow>
          (let originalName = walletName b;
               originalConnect = connectText b;
               s1 = set_button walletType (connecting b) s
           in case connectWallet_switch walletType s1 of
                Inr w \<Rightarrow>
                  (let s2 = s1\<lparr>connectedWallet := Some w, isAuthenticated := True\<rparr>;
                       s4 = set_button walletType
                              ((connecting b)\<lparr>walletName := ''CONNECTED'', connectText := ''SUCCESS'',
                                 background := ''linear-gradient(135deg, rgba(255, 68, 68, 0.3), rgba(255, 68, 68, 0.1))'',
                                 borderColor := ''#ff4444'',
                                 boxShadow := ''0 0 20px rgba(255, 68, 68, 0.6)''\<rparr>) s2;
                       s5 = dispatchEvent (walletConnected w) s4
                   in setTimeout TransitionToMainContent 1500 s5)
              | Inl error \<Rightarrow>
                  (let s2 = set_button walletType (connection_failed (connecting b)) s1
                   in setTimeout (ResetButton walletType originalName originalConnect) 3000 s2)))"

definition forceReauth_legacy :: "state \<Rightarrow> state" where
  "forceReauth_legacy s =
     (let s1 = s\<lparr>isAuthenticated := False, connectedWallet := None\<rparr>
      in case (loadingScreen (document s1), authScreen (document s1), mainContent (document s1)) of
           (Some ls, Some au, Some mc) \<Rightarrow>
             startLoadingSequence
               (s1\<lparr>document := (document s1)
                    \<lparr>mainContent := Some (classList_add ''hidden'' mc),
                     authScreen := Some (classList_add ''hidden'' au),
                     loadingScreen := Some (classList_remove ''fade-out'' (ls\<lparr>display := ''flex''\<rparr>))\<rparr>\<rparr>)
         | _ \<Rightarrow> s1)"

section \<open>The event loop firing the progress timer\<close>

text \<open>
  The host fires a pending \<open>updateProgress\<close> timer: the timer leaves the queue and the
  callback runs. \<open>run_loading n\<close> lists the states after each of at most \<open>n\<close> firings of
  the timer of the sequence started at \<open>startTime\<close>; it stops when no such timer is
  pending, that is once the sample has scheduled the transition to the auth screen.
\<close>

definition fire_updateProgress :: "rat \<Rightarrow> state \<Rightarrow> state" where
  "fire_updateProgress startTime s =
     updateProgress startTime (s\<lparr>timers := remove1 (UpdateProgress startTime, 50) (timers s)\<rparr>)"

fun run_loading :: "nat \<Rightarrow> rat \<Rightarrow> state \<Rightarrow> state list" where
  "run_loading 0 startTime s = []"
| "run_loading (Suc n) startTime s =
     (if (UpdateProgress startTime, 50) \<in> set (timers s)
      then fire_updateProgress startTime s # run_loading n startTime (fire_updateProgress startTime s)
      else [])"

text \<open>The progress values shown by the states of a run, in order.\<close>

definition samples :: "state list \<Rightarrow> rat list" where
  "samples tr = List.map_filter (\<lambda>x. progressBar (document x)) tr"

text \<open>
  The regions \<open>startLoadingSequence\<close> looks up before it starts; without one of them it
  logs an error and returns.
\<close>

definition regions_present :: "document \<Rightarrow> bool" where
  "regions_present d =
     (progressBar d \<noteq> None \<and> loadingPercentage d \<noteq> None
      \<and> loadingScreen d \<noteq> None \<and> authScreen d \<noteq> None)"

section \<open>Example environments\<close>

text \<open>
  A page with every region and one button per wallet, a clock that advances one second
  per reading from 100000000, and stored texts with the values \<open>JSON.parse\<close> gives for
  them: a record written at time 1000, a record written at time 100000000, an empty
  object and \<open>null\<close>; any other text is rejected.
\<close>

definition demo_wallet :: wallet where
  "demo_wallet = \<lparr>type = ''phantom'', publicKey = ''9xQe'', address = ''9xQe''\<rparr>"

definition stale_text :: string where
  \<open>stale_text =
     ''{"walletType":"phantom","timestamp":1000,"publicKey":"9xQe","address":"9xQe"}''\<close>

definition fresh_text :: string where
  \<open>fresh_text =
     ''{"walletType":"phantom","timestamp":100000000,"publicKey":"9xQe","address":"9xQe"}''\<close>

definition demo_platform :: platform where
  "demo_platform =
     \<lparr>JSON_parse = (\<lambda>t. if t = stale_text then Some (connectionData_of demo_wallet 1000)
                         else if t = fresh_text then Some (connectionData_of demo_wallet 100000000)
                         else if t = ''{}'' then Some (JObj [])
                         else if t = ''null'' then Some JNull
                         else None),
      JSON_stringify = (\<lambda>v. if v = connectionData_of demo_wallet 1000 then stale_text
                             else if v = connectionData_of demo_wallet 100000000 then fresh_text
                             else if v = JNull then ''null''
                             else ''{}''),
      ToNumber_other = (\<lambda>v. NaN)\<rparr>"

definition demo_button :: button where
  "demo_button = \<lparr>walletName = ''PHANTOM'', connectText = ''CONNECT'', disabled = False,
                   pointerEvents = [], opacity = [], background = [], borderColor = [],
                   boxShadow = []\<rparr>"

definition demo_page :: document where
  "demo_page =
     \<lparr>loadingScreen = Some \<lparr>display = [], classList = []\<rparr>,
      authScreen = Some \<lparr>display = [], classList = [''hidden'']\<rparr>,
      mainContent = Some \<lparr>display = [], classList = [''hidden'']\<rparr>,
      progressBar = Some 0,
      loadingPercentage = Some 0,
      buttons = (\<lambda>w. if w = ''phantom'' \<or> w = ''solflare'' \<or> w = ''metamask''
                     then Some demo_button else None)\<rparr>"

definition demo_state :: state where
  "demo_state =
     \<lparr>loadingDuration = 2000, isAuthenticated = False, connectedWallet = None,
      localStorage = \<lparr>items = (\<lambda>k. None), rejects_writes = False\<rparr>,
      window = \<lparr>solana = None, ethereum = None, solflare = None\<rparr>,
      document = demo_page, dispatched = [], timers = [],
      clock = (\<lambda>n. 100000000 + 1000 * of_nat n), clock_reads = 0\<rparr>"

definition stored_state :: "string \<Rightarrow> state" where
  "stored_state txt =
     demo_state\<lparr>localStorage := \<lparr>items = [storage_key \<mapsto> txt], rejects_writes = False\<rparr>\<rparr>"

text \<open>Providers: a Phantom and a MetaMask that connect, a Phantom, a MetaMask and a
  Solflare whose request is already pending, a Phantom whose \<open>connect()\<close> throws an error
  with the not-detected message, a Solflare whose \<open>connect()\<close> resolves to \<open>true\<close> and
  which exposes the key as its own property, a Solflare whose \<open>connect()\<close> resolves
  to nothing and whose key is only in its nested wallet object, one whose own key is
  an object printing as the empty text beside a nested key, and a connected Solflare.\<close>

definition phantom_ok :: solana_provider where
  "phantom_ok = \<lparr>sol_isPhantom = True, sol_isConnected = True,
                  sol_connect = (\<lambda>onlyIfTrusted. Inr (Resp (KObj ''9xQe'')))\<rparr>"

definition phantom_pending :: solana_provider where
  "phantom_pending =
     \<lparr>sol_isPhantom = True, sol_isConnected = False,
      sol_connect = (\<lambda>onlyIfTrusted.
         Inl (Thrown (Some (- 32002)) (Some ''Request already pending'')))\<rparr>"

definition phantom_missing_thrower :: solana_provider where
  "phantom_missing_thrower =
     \<lparr>sol_isPhantom = True, sol_isConnected = False,
      sol_connect = (\<lambda>onlyIfTrusted. Inl (Thrown None (Some phantom_not_detected)))\<rparr>"

definition metamask_pending :: ethereum_provider where
  "metamask_pending =
     \<lparr>eth_isMetaMask = True,
      eth_request = (\<lambda>method.
         Inl (Thrown (Some (- 32002)) (Some ''Already processing eth_requestAccounts'')))\<rparr>"

definition solflare_fallback :: solflare_provider where
  "solflare_fallback =
     \<lparr>sf_isConnected = False, sf_disconnect = None, sf_connect = Inr (Resp KUndefined),
      sf_publicKey = KObj ''So1f'', sf_wallet = None\<rparr>"

definition solflare_nested :: solflare_provider where
  "solflare_nested =
     \<lparr>sf_isConnected = False, sf_disconnect = None, sf_connect = Inr NoResponse,
      sf_publicKey = KUndefined, sf_wallet = Some \<lparr>sfw_publicKey = KStr ''So1n''\<rparr>\<rparr>"

definition solflare_blank_key :: solflare_provider where
  "solflare_blank_key =
     \<lparr>sf_isConnected = False, sf_disconnect = None, sf_connect = Inr NoResponse,
      sf_publicKey = KObj [], sf_wallet = Some \<lparr>sfw_publicKey = KStr ''So1n''\<rparr>\<rparr>"

definition solflare_connected :: solflare_provider where
  "solflare_connected =
     \<lparr>sf_isConnected = True, sf_disconnect = None, sf_connect = Inr (Resp (KObj ''So1f'')),
      sf_publicKey = KObj ''So1f'', sf_wallet = None\<rparr>"

definition solflare_pending :: solflare_provider where
  "solflare_pending =
     \<lparr>sf_isConnected = True, sf_disconnect = Some (Thrown None (Some ''Not connected'')),
      sf_connect = Inl (Thrown (Some (- 32002)) (Some ''Request already pending'')),
      sf_publicKey = KNull, sf_wallet = None\<rparr>"

definition metamask_ok :: ethereum_provider where
  "metamask_ok =
     \<lparr>eth_isMetaMask = True, eth_request = (\<lambda>method. Inr (Some [''0xA1b2'']))\<rparr>"

definition pending_state :: state where
  "pending_state =
     demo_state\<lparr>window := \<lparr>solana = Some phantom_pending, ethereum = Some metamask_pending,
                            solflare = Some solflare_pending\<rparr>\<rparr>"

definition wallets_state :: state where
  "wallets_state =
     demo_state\<lparr>window := \<lparr>solana = Some phantom_ok, ethereum = Some metamask_ok,
                            solflare = Some solflare_connected\<rparr>\<rparr>"

definition with_solana :: "solana_provider \<Rightarrow> state \<Rightarrow> state" where
  "with_solana p s = s\<lparr>window := (window s)\<lparr>solana := Some p\<rparr>\<rparr>"

text \<open>An authenticated page: a stored record, the main content shown, and both
  \<open>Date.now()\<close> readings of a restart falling into the same millisecond.\<close>

definition authenticated_state :: state where
  "authenticated_state =
     (with_solana phantom_ok (stored_state fresh_text))
       \<lparr>isAuthenticated := True, connectedWallet := Some demo_wallet,
        document := demo_page
          \<lparr>loadingScreen := Some \<lparr>display = ''none'', classList = [''fade-out'']\<rparr>,
           authScreen := Some \<lparr>display = ''none'', classList = [''fade-out'', ''hidden'']\<rparr>,
           mainContent := Some \<lparr>display = [], classList = []\<rparr>,
           progressBar := Some 100, loadingPercentage := Some 100\<rparr>,
        dispatched := [walletConnected demo_wallet],
        clock := (\<lambda>n. 100000000)\<rparr>"

section \<open>The loading sequence\<close>

lemma constructor_loadingDuration_nonzero: "constructor_loadingDuration opt \<noteq> 0"
  by (simp add: constructor_loadingDuration_def split: option.splits)

lemma progress_of_mono:
  assumes "0 < d" and "e1 \<le> e2"
  shows "progress_of d e1 \<le> progress_of d e2"
proof -
  have "e1 / d \<le> e2 / d" using assms by (simp add: divide_right_mono)
  then have "e1 / d * 100 \<le> e2 / d * 100" by (intro mult_right_mono) simp_all
  then show ?thesis unfolding progress_of_def by (simp add: min_le_iff_disj)
qed

lemma progress_of_le_100: "progress_of d e \<le> 100"
  by (simp add: progress_of_def)

lemma updateProgress_bar:
  "progressBar (document (updateProgress st s)) =
     Some (progress_of (loadingDuration s) (clock s (clock_reads s) - st))"
  by (simp add: updateProgress_def Date_now_def setTimeout_def Let_def)

lemma updateProgress_clock:
  "clock (updateProgress st s) = clock s"
  "clock_reads (updateProgress st s) = Suc (clock_reads s)"
  "loadingDuration (updateProgress st s) = loadingDuration s"
  by (simp_all add: updateProgress_def Date_now_def setTimeout_def Let_def)

lemma updateProgress_timers:
  "timers (updateProgress st s) =
     timers s @ [if progress_of (loadingDuration s) (clock s (clock_reads s) - st) < 100
                 then (UpdateProgress st, 50) else (TransitionToAuth, 500)]"
  by (simp add: updateProgress_def Date_now_def setTimeout_def Let_def)

lemma updateProgress_last_timer:
  "last (timers (updateProgress st s)) = (TransitionToAuth, 500)
     \<longleftrightarrow> progressBar (document (updateProgress st s)) = Some 100"
  using progress_of_le_100 [of "loadingDuration s" "clock s (clock_reads s) - st"]
  by (simp add: updateProgress_timers updateProgress_bar)

lemma fire_bar:
  "progressBar (document (fire_updateProgress st s)) =
     Some (progress_of (loadingDuration s) (clock s (clock_reads s) - st))"
  by (simp add: fire_updateProgress_def updateProgress_bar)

lemma fire_clock:
  "clock (fire_updateProgress st s) = clock s"
  "clock_reads (fire_updateProgress st s) = Suc (clock_reads s)"
  "loadingDuration (fire_updateProgress st s) = loadingDuration s"
  by (simp_all add: fire_updateProgress_def updateProgress_clock)

lemma fire_last_timer:
  "last (timers (fire_updateProgress st s)) = (TransitionToAuth, 500)
     \<longleftrightarrow> progressBar (document (fire_updateProgress st s)) = Some 100"
  unfolding fire_updateProgress_def by (rule updateProgress_last_timer)

lemma samples_Cons:
  "samples (x # tr) = (case progressBar (document x) of None \<Rightarrow> samples tr | Some p \<Rightarrow> p # samples tr)"
  by (simp add: samples_def List.map_filter_simps split: option.split)

lemma samples_Nil: "samples [] = []"
  by (simp add: samples_def List.map_filter_simps)

lemma run_loading_sorted:
  assumes "0 < loadingDuration s" and "\<forall>i j. i \<le> j \<longrightarrow> clock s i \<le> clock s j"
    and "p0 \<le> progress_of (loadingDuration s) (clock s (clock_reads s) - st)"
  shows "sorted (p0 # samples (run_loading n st s))"
  using assms
proof (induction n arbitrary: s p0)
  case 0
  then show ?case by (simp add: samples_Nil)
next
  case (Suc n)
  let ?s' = "fire_updateProgress st s"
  let ?p = "progress_of (loadingDuration s) (clock s (clock_reads s) - st)"
  show ?case
  proof (cases "(UpdateProgress st, 50) \<in> set (timers s)")
    case False
    then show ?thesis by (simp add: samples_Nil)
  next
    case True
    have "clock s (clock_reads s) \<le> clock s (Suc (clock_reads s))"
      using Suc.prems(2) by simp
    then have "?p \<le> progress_of (loadingDuration s) (clock s (Suc (clock_reads s)) - st)"
      using Suc.prems(1) by (intro progress_of_mono) simp_all
    then have "sorted (?p # samples (run_loading n st ?s'))"
      using Suc.prems by (intro Suc.IH) (simp_all add: fire_clock)
    then show ?thesis
      using True Suc.prems(3) by (auto simp add: samples_Cons fire_bar)
  qed
qed

lemma run_loading_all_fired:
  "x \<in> set (run_loading n st s) \<Longrightarrow>
     (\<exists>s0. x = fire_updateProgress st s0)"
  by (induction n arbitrary: s) (auto split: if_splits)

lemma run_loading_length:
  "length (samples (run_loading n st s)) = length (run_loading n st s)"
  by (induction n arbitrary: s) (simp_all add: samples_Nil samples_Cons fire_bar)

text \<open>
  C4. For a positive loading duration, the sampled progress is a non-decreasing function
  of the elapsed time and never exceeds 100. Along every run of the loading sequence
  under a clock that does not go backwards, the values written to the progress bar are
  non-decreasing, each at most 100, and a sample schedules the transition to the auth
  screen exactly when its value is 100.
\<close>

theorem progress_monotone_clamped:
  assumes "0 < loadingDuration s"
    and "\<forall>i j. i \<le> j \<longrightarrow> clock s i \<le> clock s j"
    and "regions_present (document s)"
  shows "(\<forall>e1 e2. e1 \<le> e2 \<longrightarrow>
            progress_of (loadingDuration s) e1 \<le> progress_of (loadingDuration s) e2)
       \<and> (\<forall>e. progress_of (loadingDuration s) e \<le> 100)
       \<and> sorted (samples (startLoadingSequence s
                    # run_loading n (clock s (clock_reads s)) (startLoadingSequence s)))
       \<and> (\<forall>x \<in> set (startLoadingSequence s
                    # run_loading n (clock s (clock_reads s)) (startLoadingSequence s)).
             (\<exists>p. progressBar (document x) = Some p \<and> p \<le> 100)
             \<and> (last (timers x) = (TransitionToAuth, 500)
                  \<longleftrightarrow> progressBar (document x) = Some 100))"
proof -
  let ?st = "clock s (clock_reads s)"
  let ?s1 = "s\<lparr>clock_reads := Suc (clock_reads s)\<rparr>"
  have sls: "startLoadingSequence s = updateProgress ?st ?s1"
    using assms(3) by (auto simp add: startLoadingSequence_def regions_present_def Date_now_def)
  let ?p0 = "progress_of (loadingDuration s) (clock s (Suc (clock_reads s)) - ?st)"
  have bar0: "progressBar (document (startLoadingSequence s)) = Some ?p0"
    by (simp add: sls updateProgress_bar)
  have "clock s (Suc (clock_reads s)) \<le> clock s (Suc (Suc (clock_reads s)))"
    using assms(2) by simp
  then have "?p0 \<le> progress_of (loadingDuration s) (clock s (Suc (Suc (clock_reads s))) - ?st)"
    using assms(1) by (intro progress_of_mono) simp_all
  then have "sorted (?p0 # samples (run_loading n ?st (startLoadingSequence s)))"
    using assms(1,2) by (intro run_loading_sorted) (simp_all add: sls updateProgress_clock)
  then have srt: "sorted (samples (startLoadingSequence s # run_loading n ?st (startLoadingSequence s)))"
    by (simp add: samples_Cons bar0)
  have each: "(\<exists>p. progressBar (document x) = Some p \<and> p \<le> 100)
             \<and> (last (timers x) = (TransitionToAuth, 500)
                  \<longleftrightarrow> progressBar (document x) = Some 100)"
    if "x \<in> set (startLoadingSequence s # run_loading n ?st (startLoadingSequence s))" for x
  proof (cases "x = startLoadingSequence s")
    case True
    then show ?thesis
      using updateProgress_last_timer [of ?st ?s1]
      by (simp add: sls updateProgress_bar progress_of_le_100)
  next
    case False
    with that have "x \<in> set (run_loading n ?st (startLoadingSequence s))" by simp
    from run_loading_all_fired [OF this] obtain s0 where "x = fire_updateProgress ?st s0"
      by blast
    then show ?thesis
      using fire_last_timer [of ?st s0] by (simp add: fire_bar progress_of_le_100)
  qed
  show ?thesis
    using srt each assms(1) by (simp add: progress_of_mono progress_of_le_100)
qed


theorem progress_monotone_clamped_witness:
  "0 < loadingDuration demo_state
   \<and> regions_present (document demo_state)
   \<and> progress_of (loadingDuration demo_state) 500 \<le> progress_of (loadingDuration demo_state) 1000
   \<and> sorted (samples (startLoadingSequence demo_state
              # run_loading 3 (clock demo_state (clock_reads demo_state))
                  (startLoadingSequence demo_state)))
   \<and> samples (startLoadingSequence demo_state
              # run_loading 3 (clock demo_state (clock_reads demo_state))
                  (startLoadingSequence demo_state)) = [50, 100]
   \<and> progressBar (document (fire_updateProgress (clock demo_state (clock_reads demo_state))
                               (startLoadingSequence demo_state))) = Some 100
   \<and> last (timers (fire_updateProgress (clock demo_state (clock_reads demo_state))
                      (startLoadingSequence demo_state))) = (TransitionToAuth, 500)"
proof -
  let ?st = "clock demo_state (clock_reads demo_state)"
  let ?x = "fire_updateProgress ?st (startLoadingSequence demo_state)"
  have h1: "0 < loadingDuration demo_state" by (simp add: demo_state_def)
  have h2: "\<forall>i j. i \<le> j \<longrightarrow> clock demo_state i \<le> clock demo_state j"
    by (simp add: demo_state_def)
  have h3: "regions_present (document demo_state)"
    by (simp add: regions_present_def demo_state_def demo_page_def)
  note T = progress_monotone_clamped [OF h1 h2 h3, of 3]
  have m: "progress_of (loadingDuration demo_state) 500 \<le> progress_of (loadingDuration demo_state) 1000"
    using T by simp
  have v: "samples (startLoadingSequence demo_state
              # run_loading 3 ?st (startLoadingSequence demo_state)) = [50, 100]"
    by (simp add: numeral_3_eq_3 samples_Cons samples_Nil fire_updateProgress_def
        startLoadingSequence_def updateProgress_def Date_now_def setTimeout_def Let_def
        progress_of_def demo_state_def demo_page_def)
  have pending: "(UpdateProgress ?st, 50) \<in> set (timers (startLoadingSequence demo_state))"
    by (simp add: startLoadingSequence_def updateProgress_def Date_now_def setTimeout_def Let_def
        progress_of_def demo_state_def demo_page_def)
  then have mem: "?x \<in> set (startLoadingSequence demo_state
              # run_loading 3 ?st (startLoadingSequence demo_state))"
    by (simp add: numeral_3_eq_3)
  have bar: "progressBar (document ?x) = Some 100"
    by (simp add: fire_updateProgress_def
        startLoadingSequence_def updateProgress_def Date_now_def setTimeout_def Let_def
        progress_of_def demo_state_def demo_page_def)
  from T mem bar have tr: "last (timers ?x) = (TransitionToAuth, 500)"
    by blast
  from T h1 h3 m v bar tr show ?thesis by blast
qed

section \<open>Startup\<close>

lemma startLoadingSequence_frame:
  "isAuthenticated (startLoadingSequence s) = isAuthenticated s"
  "connectedWallet (startLoadingSequence s) = connectedWallet s"
  "dispatched (startLoadingSequence s) = dispatched s"
  "localStorage (startLoadingSequence s) = localStorage s"
  "mainContent (document (startLoadingSequence s)) = mainContent (document s)"
  "loadingScreen (document (startLoadingSequence s)) = loadingScreen (document s)"
  "authScreen (document (startLoadingSequence s)) = authScreen (document s)"
  by (simp_all add: startLoadingSequence_def updateProgress_def Date_now_def setTimeout_def Let_def)

lemma startLoadingSequence_timers:
  assumes "regions_present (document s)"
  shows "\<exists>cb delay. timers (startLoadingSequence s) = timers s @ [(cb, delay)]
           \<and> (cb = UpdateProgress (clock s (clock_reads s)) \<or> cb = TransitionToAuth)"
  using assms
  by (auto simp add: regions_present_def startLoadingSequence_def updateProgress_def
      Date_now_def setTimeout_def Let_def)

text \<open>
  C1. A stored record whose timestamp lies more than 86,400,000 ms before the clock
  reading of \<open>checkExistingConnection\<close> is removed from the store and the check returns
  false; \<open>init\<close> then starts the loading sequence, and leaves the authentication flag, the
  connected wallet, the dispatched events and the main content as they were.
\<close>

theorem expired_record_discarded:
  assumes "getItem (localStorage s) storage_key = Some txt" and "txt \<noteq> []"
    and "JSON_parse P txt = Some connectionData"
    and "get_prop connectionData ''timestamp'' = Some (JNum ts)"
    and "clock s (clock_reads s) - ts > 86400000"
  shows "checkExistingConnection P s =
           (False, s\<lparr>clock_reads := Suc (clock_reads s),
                     localStorage := removeItem (localStorage s) storage_key\<rparr>)
         \<and> getItem (localStorage (snd (checkExistingConnection P s))) storage_key = None
         \<and> init P s = startLoadingSequence (snd (checkExistingConnection P s))
         \<and> isAuthenticated (init P s) = isAuthenticated s
         \<and> connectedWallet (init P s) = connectedWallet s
         \<and> dispatched (init P s) = dispatched s
         \<and> mainContent (document (init P s)) = mainContent (document s)
         \<and> getItem (localStorage (init P s)) storage_key = None
         \<and> (regions_present (document s) \<longrightarrow>
              (\<exists>cb delay. timers (init P s) = timers s @ [(cb, delay)]
                 \<and> (cb = UpdateProgress (clock s (Suc (clock_reads s))) \<or> cb = TransitionToAuth)))"
proof -
  let ?s' = "s\<lparr>clock_reads := Suc (clock_reads s),
                localStorage := removeItem (localStorage s) storage_key\<rparr>"
  have chk: "checkExistingConnection P s = (False, ?s')"
    using assms by (simp add: checkExistingConnection_def Date_now_def)
  have gone: "getItem (localStorage ?s') storage_key = None"
    by (simp add: getItem_def removeItem_def)
  have ini: "init P s = startLoadingSequence ?s'"
    by (simp add: init_def chk)
  have tm: "regions_present (document s) \<longrightarrow>
              (\<exists>cb delay. timers (init P s) = timers s @ [(cb, delay)]
                 \<and> (cb = UpdateProgress (clock s (Suc (clock_reads s))) \<or> cb = TransitionToAuth))"
  proof
    assume "regions_present (document s)"
    then have "regions_present (document ?s')" by simp
    from startLoadingSequence_timers[OF this]
    show "\<exists>cb delay. timers (init P s) = timers s @ [(cb, delay)]
                 \<and> (cb = UpdateProgress (clock s (Suc (clock_reads s))) \<or> cb = TransitionToAuth)"
      by (simp add: ini)
  qed
  show ?thesis
    using gone tm by (simp add: chk ini startLoadingSequence_frame)
qed

theorem expired_record_discarded_witness:
  "getItem (localStorage (stored_state stale_text)) storage_key = Some stale_text
   \<and> clock (stored_state stale_text) (clock_reads (stored_state stale_text)) - 1000 > 86400000
   \<and> checkExistingConnection demo_platform (stored_state stale_text) =
         (False, (stored_state stale_text)
                   \<lparr>clock_reads := Suc (clock_reads (stored_state stale_text)),
                    localStorage := removeItem (localStorage (stored_state stale_text)) storage_key\<rparr>)
   \<and> getItem (localStorage (init demo_platform (stored_state stale_text))) storage_key = None
   \<and> isAuthenticated (init demo_platform (stored_state stale_text))
       = isAuthenticated (stored_state stale_text)
   \<and> isAuthenticated (stored_state stale_text) = False
   \<and> regions_present (document (stored_state stale_text))
   \<and> (\<exists>cb delay. timers (init demo_platform (stored_state stale_text))
                     = timers (stored_state stale_text) @ [(cb, delay)]
         \<and> (cb = UpdateProgress (clock (stored_state stale_text)
                                   (Suc (clock_reads (stored_state stale_text))))
              \<or> cb = TransitionToAuth))
   \<and> timers (init demo_platform (stored_state stale_text)) = [(UpdateProgress 100001000, 50)]"
proof -
  let ?s = "stored_state stale_text"
  have h1: "getItem (localStorage ?s) storage_key = Some stale_text"
    by (simp add: stored_state_def demo_state_def getItem_def)
  have h2: "stale_text \<noteq> []" by (simp add: stale_text_def)
  have h3: "JSON_parse demo_platform stale_text = Some (connectionData_of demo_wallet 1000)"
    by (simp add: demo_platform_def)
  have h4: "get_prop (connectionData_of demo_wallet 1000) ''timestamp'' = Some (JNum 1000)"
    by (simp add: connectionData_of_def)
  have h5: "clock ?s (clock_reads ?s) - 1000 > 86400000"
    by (simp add: stored_state_def demo_state_def)
  have au: "isAuthenticated ?s = False"
    by (simp add: stored_state_def demo_state_def)
  note T = expired_record_discarded [OF h1 h2 h3 h4 h5]
  have "timers (startLoadingSequence (?s\<lparr>clock_reads := Suc (clock_reads ?s),
                     localStorage := removeItem (localStorage ?s) storage_key\<rparr>))
          = [(UpdateProgress 100001000, 50)]"
    by (simp add: startLoadingSequence_def updateProgress_def Date_now_def setTimeout_def Let_def
        progress_of_def stored_state_def demo_state_def demo_page_def)
  with T have t: "timers (init demo_platform ?s) = [(UpdateProgress 100001000, 50)]"
    by simp
  have r: "regions_present (document ?s)"
    by (simp add: regions_present_def stored_state_def demo_state_def demo_page_def)
  from T h1 h5 au r t show ?thesis
    by blast
qed


lemma verify_false_unchanged:
  "fst (verifyWalletConnection walletType s) = False \<Longrightarrow>
     snd (verifyWalletConnection walletType s) = s"
  by (auto simp add: verifyWalletConnection_def
      split: if_splits option.splits sum.splits response.splits list.splits)

lemma verify_fails_provider_absent:
  "solana (window s) = None \<Longrightarrow> verifyWalletConnection (JStr ''phantom'') s = (False, s)"
  "ethereum (window s) = None \<Longrightarrow> verifyWalletConnection (JStr ''metamask'') s = (False, s)"
  "solflare (window s) = None \<Longrightarrow> verifyWalletConnection (JStr ''solflare'') s = (False, s)"
  by (simp_all add: verifyWalletConnection_def)

lemma verify_fails_no_account:
  "solana (window s) = Some p \<Longrightarrow> sol_connect p True = Inr r \<Longrightarrow>
     \<not> truthy (response_publicKey r) \<Longrightarrow>
     verifyWalletConnection (JStr ''phantom'') s = (False, s)"
  "ethereum (window s) = Some q \<Longrightarrow> eth_request q ''eth_accounts'' = Inr (Some []) \<Longrightarrow>
     verifyWalletConnection (JStr ''metamask'') s = (False, s)"
  "solflare (window s) = Some f \<Longrightarrow> \<not> truthy (sf_publicKey f) \<Longrightarrow>
     verifyWalletConnection (JStr ''solflare'') s = (False, s)"
  by (simp_all add: verifyWalletConnection_def response_publicKey_def split: response.splits)

lemma verify_fails_call_rejects:
  "solana (window s) = Some p \<Longrightarrow> sol_connect p True = Inl err \<Longrightarrow>
     verifyWalletConnection (JStr ''phantom'') s = (False, s)"
  "ethereum (window s) = Some q \<Longrightarrow> eth_request q ''eth_accounts'' = Inl err \<Longrightarrow>
     verifyWalletConnection (JStr ''metamask'') s = (False, s)"
  by (simp_all add: verifyWalletConnection_def)

text \<open>
  C2. An unexpired stored record whose silent verification fails makes
  \<open>checkExistingConnection\<close> return false and \<open>init\<close> start the loading sequence, but the
  record stays in the store: only the clock reading is consumed.
\<close>

theorem failed_verification_keeps_record:
  assumes "getItem (localStorage s) storage_key = Some txt" and "txt \<noteq> []"
    and "JSON_parse P txt = Some connectionData"
    and "get_prop connectionData ''timestamp'' = Some (JNum ts)"
    and "clock s (clock_reads s) - ts \<le> 86400000"
    and "get_prop connectionData ''walletType'' = Some walletType"
    and "fst (verifyWalletConnection walletType (s\<lparr>clock_reads := Suc (clock_reads s)\<rparr>)) = False"
  shows "checkExistingConnection P s = (False, s\<lparr>clock_reads := Suc (clock_reads s)\<rparr>)
         \<and> getItem (localStorage (snd (checkExistingConnection P s))) storage_key = Some txt
         \<and> init P s = startLoadingSequence (s\<lparr>clock_reads := Suc (clock_reads s)\<rparr>)
         \<and> isAuthenticated (init P s) = isAuthenticated s
         \<and> connectedWallet (init P s) = connectedWallet s
         \<and> dispatched (init P s) = dispatched s
         \<and> getItem (localStorage (init P s)) storage_key = Some txt"
proof -
  let ?s1 = "s\<lparr>clock_reads := Suc (clock_reads s)\<rparr>"
  have "verifyWalletConnection walletType ?s1 = (False, ?s1)"
    using assms(7) verify_false_unchanged [OF assms(7)]
    by (metis prod.collapse)
  then have chk: "checkExistingConnection P s = (False, ?s1)"
    using assms(1-6) by (simp add: checkExistingConnection_def Date_now_def)
  have ini: "init P s = startLoadingSequence ?s1"
    by (simp add: init_def chk)
  show ?thesis
    using assms(1) by (simp add: chk ini startLoadingSequence_frame)
qed


lemma fresh_record_facts:
  "getItem (localStorage (stored_state fresh_text)) storage_key = Some fresh_text"
  "fresh_text \<noteq> []"
  "JSON_parse demo_platform fresh_text = Some (connectionData_of demo_wallet 100000000)"
  "get_prop (connectionData_of demo_wallet 100000000) ''timestamp'' = Some (JNum 100000000)"
  "clock (stored_state fresh_text) (clock_reads (stored_state fresh_text)) - 100000000 \<le> 86400000"
  "get_prop (connectionData_of demo_wallet 100000000) ''walletType'' = Some (JStr ''phantom'')"
  "solana (window (stored_state fresh_text)) = None"
  by (simp_all add: stored_state_def demo_state_def getItem_def fresh_text_def stale_text_def
      demo_platform_def connectionData_of_def demo_wallet_def)

theorem failed_verification_keeps_record_witness:
  "getItem (localStorage (stored_state fresh_text)) storage_key = Some fresh_text
   \<and> clock (stored_state fresh_text) (clock_reads (stored_state fresh_text)) - 100000000 \<le> 86400000
   \<and> fst (verifyWalletConnection (JStr ''phantom'')
         ((stored_state fresh_text)\<lparr>clock_reads := Suc (clock_reads (stored_state fresh_text))\<rparr>)) = False
   \<and> checkExistingConnection demo_platform (stored_state fresh_text)
       = (False, (stored_state fresh_text)\<lparr>clock_reads := Suc (clock_reads (stored_state fresh_text))\<rparr>)
   \<and> getItem (localStorage (init demo_platform (stored_state fresh_text))) storage_key = Some fresh_text
   \<and> isAuthenticated (init demo_platform (stored_state fresh_text))
       = isAuthenticated (stored_state fresh_text)"
proof -
  let ?s = "stored_state fresh_text"
  have v: "fst (verifyWalletConnection (JStr ''phantom'') (?s\<lparr>clock_reads := Suc (clock_reads ?s)\<rparr>)) = False"
    by (simp add: verify_fails_provider_absent fresh_record_facts)
  note T = failed_verification_keeps_record [OF fresh_record_facts(1-6) v]
  from T fresh_record_facts(1,5) v show ?thesis by blast
qed

text \<open>
  The claim's discard fails: an unexpired record for Phantom, no Phantom provider on the
  page. The check returns false and the record is still in the store.
\<close>

theorem failed_verification_record_remains:
  "solana (window (stored_state fresh_text)) = None
   \<and> fst (checkExistingConnection demo_platform (stored_state fresh_text)) = False
   \<and> getItem (localStorage (snd (checkExistingConnection demo_platform (stored_state fresh_text))))
        storage_key = Some fresh_text
   \<and> getItem (localStorage (init demo_platform (stored_state fresh_text))) storage_key \<noteq> None"
  by (simp add: init_def checkExistingConnection_def verifyWalletConnection_def Date_now_def
      startLoadingSequence_frame fresh_record_facts
      stored_state_def demo_state_def getItem_def connectionData_of_def demo_wallet_def)

text \<open>
  C9. A stored text that \<open>JSON.parse\<close> rejects, or that parses to \<open>null\<close>, is removed from
  the store; the check returns false and \<open>init\<close> starts the loading sequence. A stored
  text that parses to a value without a timestamp is not expired by the age test; when
  its silent verification fails, the check returns false, \<open>init\<close> starts the loading
  sequence, and the text stays in the store.
\<close>

theorem unparseable_record_discarded:
  assumes "getItem (localStorage s) storage_key = Some txt" and "txt \<noteq> []"
  shows "(JSON_parse P txt = None \<or> JSON_parse P txt = Some JNull \<longrightarrow>
           fst (checkExistingConnection P s) = False
           \<and> getItem (localStorage (snd (checkExistingConnection P s))) storage_key = None
           \<and> init P s = startLoadingSequence (snd (checkExistingConnection P s))
           \<and> isAuthenticated (init P s) = isAuthenticated s
           \<and> connectedWallet (init P s) = connectedWallet s
           \<and> dispatched (init P s) = dispatched s
           \<and> getItem (localStorage (init P s)) storage_key = None)
       \<and> (JSON_parse P txt = Some connectionData
           \<and> get_prop connectionData ''timestamp'' = Some JUndefined
           \<and> get_prop connectionData ''walletType'' = Some walletType
           \<and> fst (verifyWalletConnection walletType (s\<lparr>clock_reads := Suc (clock_reads s)\<rparr>)) = False
          \<longrightarrow>
           checkExistingConnection P s = (False, s\<lparr>clock_reads := Suc (clock_reads s)\<rparr>)
           \<and> getItem (localStorage (snd (checkExistingConnection P s))) storage_key = Some txt
           \<and> init P s = startLoadingSequence (s\<lparr>clock_reads := Suc (clock_reads s)\<rparr>)
           \<and> isAuthenticated (init P s) = isAuthenticated s
           \<and> connectedWallet (init P s) = connectedWallet s
           \<and> dispatched (init P s) = dispatched s
           \<and> getItem (localStorage (init P s)) storage_key = Some txt)"
proof (intro conjI impI)
  assume bad: "JSON_parse P txt = None \<or> JSON_parse P txt = Some JNull"
  have chk: "fst (checkExistingConnection P s) = False
        \<and> localStorage (snd (checkExistingConnection P s)) = removeItem (localStorage s) storage_key
        \<and> isAuthenticated (snd (checkExistingConnection P s)) = isAuthenticated s
        \<and> connectedWallet (snd (checkExistingConnection P s)) = connectedWallet s
        \<and> dispatched (snd (checkExistingConnection P s)) = dispatched s"
    using assms bad by (auto simp add: checkExistingConnection_def Date_now_def)
  have gone: "getItem (removeItem (localStorage s) storage_key) storage_key = None"
    by (simp add: getItem_def removeItem_def)
  have ini: "init P s = startLoadingSequence (snd (checkExistingConnection P s))"
    using chk by (cases "checkExistingConnection P s") (simp add: init_def)
  show "fst (checkExistingConnection P s) = False"
    "getItem (localStorage (snd (checkExistingConnection P s))) storage_key = None"
    "init P s = startLoadingSequence (snd (checkExistingConnection P s))"
    "isAuthenticated (init P s) = isAuthenticated s"
    "connectedWallet (init P s) = connectedWallet s"
    "dispatched (init P s) = dispatched s"
    "getItem (localStorage (init P s)) storage_key = None"
    using chk gone by (simp_all add: ini startLoadingSequence_frame)
next
  let ?s1 = "s\<lparr>clock_reads := Suc (clock_reads s)\<rparr>"
  assume h: "JSON_parse P txt = Some connectionData
           \<and> get_prop connectionData ''timestamp'' = Some JUndefined
           \<and> get_prop connectionData ''walletType'' = Some walletType
           \<and> fst (verifyWalletConnection walletType ?s1) = False"
  then have vf: "fst (verifyWalletConnection walletType ?s1) = False" by simp
  have "verifyWalletConnection walletType ?s1 = (False, ?s1)"
    using vf verify_false_unchanged [OF vf] by (metis prod.collapse)
  then have chk: "checkExistingConnection P s = (False, ?s1)"
    using assms h by (simp add: checkExistingConnection_def Date_now_def)
  have ini: "init P s = startLoadingSequence ?s1"
    by (simp add: init_def chk)
  show "checkExistingConnection P s = (False, ?s1)"
    "getItem (localStorage (snd (checkExistingConnection P s))) storage_key = Some txt"
    "init P s = startLoadingSequence ?s1"
    "isAuthenticated (init P s) = isAuthenticated s"
    "connectedWallet (init P s) = connectedWallet s"
    "dispatched (init P s) = dispatched s"
    "getItem (localStorage (init P s)) storage_key = Some txt"
    using assms(1) by (simp_all add: chk ini startLoadingSequence_frame)
qed

theorem unparseable_record_discarded_witness:
  "getItem (localStorage (stored_state ''not json'')) storage_key = Some ''not json''
   \<and> JSON_parse demo_platform ''not json'' = None
   \<and> fst (checkExistingConnection demo_platform (stored_state ''not json'')) = False
   \<and> getItem (localStorage (snd (checkExistingConnection demo_platform (stored_state ''not json''))))
        storage_key = None
   \<and> getItem (localStorage (init demo_platform (stored_state ''not json''))) storage_key = None
   \<and> getItem (localStorage (stored_state ''{}'')) storage_key = Some ''{}''
   \<and> JSON_parse demo_platform ''{}'' = Some (JObj [])
   \<and> get_prop (JObj []) ''timestamp'' = Some JUndefined
   \<and> get_prop (JObj []) ''walletType'' = Some JUndefined
   \<and> fst (verifyWalletConnection JUndefined
         ((stored_state ''{}'')\<lparr>clock_reads := Suc (clock_reads (stored_state ''{}''))\<rparr>)) = False
   \<and> fst (checkExistingConnection demo_platform (stored_state ''{}'')) = False
   \<and> getItem (localStorage (init demo_platform (stored_state ''{}''))) storage_key = Some ''{}''
   \<and> init demo_platform (stored_state ''{}'')
       = startLoadingSequence
           ((stored_state ''{}'')\<lparr>clock_reads := Suc (clock_reads (stored_state ''{}''))\<rparr>)"
proof -
  have h1: "getItem (localStorage (stored_state ''not json'')) storage_key = Some ''not json''"
    by (simp add: stored_state_def demo_state_def getItem_def)
  have h2: "''not json'' \<noteq> []" by simp
  have p: "JSON_parse demo_platform ''not json'' = None"
    by (simp add: demo_platform_def stale_text_def fresh_text_def)
  note T = unparseable_record_discarded [OF h1 h2, of demo_platform]
  have a: "fst (checkExistingConnection demo_platform (stored_state ''not json'')) = False
   \<and> getItem (localStorage (snd (checkExistingConnection demo_platform (stored_state ''not json''))))
        storage_key = None
   \<and> getItem (localStorage (init demo_platform (stored_state ''not json''))) storage_key = None"
    using T p by blast
  have g1: "getItem (localStorage (stored_state ''{}'')) storage_key = Some ''{}''"
    by (simp add: stored_state_def demo_state_def getItem_def)
  have g2: "''{}'' \<noteq> []" by simp
  have q: "JSON_parse demo_platform ''{}'' = Some (JObj [])"
    "get_prop (JObj []) ''timestamp'' = Some JUndefined"
    "get_prop (JObj []) ''walletType'' = Some JUndefined"
    "fst (verifyWalletConnection JUndefined
         ((stored_state ''{}'')\<lparr>clock_reads := Suc (clock_reads (stored_state ''{}''))\<rparr>)) = False"
    by (simp_all add: demo_platform_def stale_text_def fresh_text_def verifyWalletConnection_def)
  note U = unparseable_record_discarded [OF g1 g2, of demo_platform "JObj []" JUndefined]
  have b: "checkExistingConnection demo_platform (stored_state ''{}'')
             = (False, (stored_state ''{}'')\<lparr>clock_reads := Suc (clock_reads (stored_state ''{}''))\<rparr>)
   \<and> getItem (localStorage (init demo_platform (stored_state ''{}''))) storage_key = Some ''{}''
   \<and> init demo_platform (stored_state ''{}'')
       = startLoadingSequence
           ((stored_state ''{}'')\<lparr>clock_reads := Suc (clock_reads (stored_state ''{}''))\<rparr>)"
    using U q by blast
  then have c: "fst (checkExistingConnection demo_platform (stored_state ''{}'')) = False"
    by simp
  from h1 p a g1 q b c show ?thesis by blast
qed

text \<open>
  The claim fails for a record that parses but is corrupt: the stored text \<open>{}\<close> parses to
  an object without fields, the check returns false, and the text is still in the store.
\<close>

theorem corrupt_record_remains:
  "JSON_parse demo_platform ''{}'' = Some (JObj [])
   \<and> fst (checkExistingConnection demo_platform (stored_state ''{}'')) = False
   \<and> getItem (localStorage (snd (checkExistingConnection demo_platform (stored_state ''{}''))))
        storage_key = Some ''{}''"
  by (simp add: checkExistingConnection_def verifyWalletConnection_def Date_now_def
      demo_platform_def stale_text_def fresh_text_def
      stored_state_def demo_state_def getItem_def)


section \<open>Re-authentication\<close>

lemma forceReauth_legacy_frame:
  "dispatched (forceReauth_legacy s) = dispatched s"
  "localStorage (forceReauth_legacy s) = localStorage s"
  "isAuthenticated (forceReauth_legacy s) = False"
  by (simp_all add: forceReauth_legacy_def Let_def startLoadingSequence_frame
      split: option.splits)

text \<open>
  C3. In the controller with session persistence, with the loading screen, the auth
  screen, the main content, the progress bar and the percentage label on the page,
  \<open>forceReauth\<close> from any state removes the stored record, dispatches the disconnected
  event, clears the authentication flag and the connected wallet, shows the loading
  screen and hides the other two, and starts the loading sequence from a page whose
  progress bar and label read 0; they still read 0 afterwards when the first sample falls
  into the millisecond of the start. The \<open>forceReauth\<close> of the controller without session
  persistence dispatches no event and leaves the store as it is.
\<close>

theorem forceReauth_restarts_loading:
  assumes "loadingScreen (document s) = Some ls" and "authScreen (document s) = Some au"
    and "mainContent (document s) = Some mc"
    and "progressBar (document s) = Some pb" and "loadingPercentage (document s) = Some lp"
  shows "getItem (localStorage (forceReauth s)) storage_key = None
       \<and> dispatched (forceReauth s) = dispatched s @ [walletDisconnected]
       \<and> isAuthenticated (forceReauth s) = False
       \<and> connectedWallet (forceReauth s) = None
       \<and> (\<exists>ls'. loadingScreen (document (forceReauth s)) = Some ls'
              \<and> display ls' = ''flex'' \<and> ''fade-out'' \<notin> set (classList ls'))
       \<and> (\<exists>au'. authScreen (document (forceReauth s)) = Some au'
              \<and> display au' = ''none'' \<and> ''hidden'' \<in> set (classList au'))
       \<and> (\<exists>mc'. mainContent (document (forceReauth s)) = Some mc'
              \<and> display mc' = ''none'' \<and> ''hidden'' \<in> set (classList mc'))
       \<and> (\<exists>s'. forceReauth s = startLoadingSequence s'
              \<and> regions_present (document s')
              \<and> progressBar (document s') = Some 0 \<and> loadingPercentage (document s') = Some 0)
       \<and> (\<exists>cb delay. timers (forceReauth s) = timers s @ [(cb, delay)]
              \<and> (cb = UpdateProgress (clock s (clock_reads s)) \<or> cb = TransitionToAuth))
       \<and> progressBar (document (forceReauth s))
            = Some (progress_of (loadingDuration s)
                      (clock s (Suc (clock_reads s)) - clock s (clock_reads s)))
       \<and> (clock s (Suc (clock_reads s)) = clock s (clock_reads s) \<longrightarrow>
            progressBar (document (forceReauth s)) = Some 0
            \<and> loadingPercentage (document (forceReauth s)) = Some 0)
       \<and> dispatched (forceReauth_legacy s) = dispatched s
       \<and> localStorage (forceReauth_legacy s) = localStorage s"
proof -
  define s3 where "s3 = dispatchEvent walletDisconnected
                          (clearStoredConnection (s\<lparr>isAuthenticated := False, connectedWallet := None\<rparr>))"
  define s' where "s' = s3\<lparr>document := (document s3)
                    \<lparr>mainContent := Some ((classList_add ''hidden'' mc)\<lparr>display := ''none''\<rparr>),
                     authScreen := Some ((classList_add ''hidden'' au)\<lparr>display := ''none''\<rparr>),
                     loadingScreen := Some (classList_remove ''fade-out'' (ls\<lparr>display := ''flex''\<rparr>)),
                     progressBar := Some 0, loadingPercentage := Some 0\<rparr>\<rparr>"
  have doc3: "document s3 = document s"
    by (simp add: s3_def dispatchEvent_def clearStoredConnection_def)
  have fr: "forceReauth s = startLoadingSequence s'"
    using assms by (simp add: forceReauth_def Let_def s'_def s3_def [symmetric] doc3)
  have rp: "regions_present (document s')"
    by (simp add: s'_def regions_present_def)
  have upd: "startLoadingSequence s'
               = updateProgress (clock s (clock_reads s)) (s'\<lparr>clock_reads := Suc (clock_reads s)\<rparr>)"
    by (simp add: startLoadingSequence_def s'_def s3_def Date_now_def
        dispatchEvent_def clearStoredConnection_def)
  have fields: "localStorage s' = removeItem (localStorage s) storage_key"
    "dispatched s' = dispatched s @ [walletDisconnected]"
    "isAuthenticated s' = False" "connectedWallet s' = None"
    "timers s' = timers s" "clock s' = clock s" "clock_reads s' = clock_reads s"
    "loadingDuration s' = loadingDuration s"
    by (simp_all add: s'_def s3_def dispatchEvent_def clearStoredConnection_def)
  have bar: "progressBar (document (forceReauth s))
            = Some (progress_of (loadingDuration s)
                      (clock s (Suc (clock_reads s)) - clock s (clock_reads s)))"
    by (simp add: fr upd updateProgress_bar fields)
  have lab: "loadingPercentage (document (forceReauth s))
            = Some \<lfloor>progress_of (loadingDuration s)
                      (clock s (Suc (clock_reads s)) - clock s (clock_reads s))\<rfloor>"
    by (simp add: fr upd updateProgress_def Date_now_def setTimeout_def Let_def fields)
  have zero: "progress_of (loadingDuration s) 0 = 0"
    by (simp add: progress_of_def)
  have tm: "\<exists>cb delay. timers (forceReauth s) = timers s @ [(cb, delay)]
              \<and> (cb = UpdateProgress (clock s (clock_reads s)) \<or> cb = TransitionToAuth)"
    using startLoadingSequence_timers [OF rp] by (simp add: fr fields)
  have scr: "loadingScreen (document (forceReauth s))
               = Some (classList_remove ''fade-out'' (ls\<lparr>display := ''flex''\<rparr>))"
    "authScreen (document (forceReauth s)) = Some ((classList_add ''hidden'' au)\<lparr>display := ''none''\<rparr>)"
    "mainContent (document (forceReauth s)) = Some ((classList_add ''hidden'' mc)\<lparr>display := ''none''\<rparr>)"
    by (simp_all add: fr startLoadingSequence_frame) (simp_all add: s'_def)
  have a: "getItem (localStorage (forceReauth s)) storage_key = None"
    by (simp add: fr startLoadingSequence_frame fields getItem_def removeItem_def)
  have b: "dispatched (forceReauth s) = dispatched s @ [walletDisconnected]"
    "isAuthenticated (forceReauth s) = False" "connectedWallet (forceReauth s) = None"
    by (simp_all add: fr startLoadingSequence_frame fields)
  have c: "\<exists>s'. forceReauth s = startLoadingSequence s'
              \<and> regions_present (document s')
              \<and> progressBar (document s') = Some 0 \<and> loadingPercentage (document s') = Some 0"
    using fr rp by (intro exI [of _ s']) (simp add: s'_def)
  show ?thesis
    using a b c tm bar lab zero
    by (simp add: scr classList_add_def classList_remove_def forceReauth_legacy_frame)
qed

theorem forceReauth_restarts_loading_witness:
  "getItem (localStorage authenticated_state) storage_key = Some fresh_text
   \<and> isAuthenticated authenticated_state = True
   \<and> getItem (localStorage (forceReauth authenticated_state)) storage_key = None
   \<and> dispatched (forceReauth authenticated_state)
        = dispatched authenticated_state @ [walletDisconnected]
   \<and> isAuthenticated (forceReauth authenticated_state) = False
   \<and> progressBar (document (forceReauth authenticated_state)) = Some 0
   \<and> loadingPercentage (document (forceReauth authenticated_state)) = Some 0
   \<and> timers (forceReauth authenticated_state) = [(UpdateProgress 100000000, 50)]"
proof -
  have d: "loadingScreen (document authenticated_state)
             = Some \<lparr>display = ''none'', classList = [''fade-out'']\<rparr>"
    "authScreen (document authenticated_state)
             = Some \<lparr>display = ''none'', classList = [''fade-out'', ''hidden'']\<rparr>"
    "mainContent (document authenticated_state) = Some \<lparr>display = [], classList = []\<rparr>"
    "progressBar (document authenticated_state) = Some 100"
    "loadingPercentage (document authenticated_state) = Some 100"
    by (simp_all add: authenticated_state_def)
  have e: "getItem (localStorage authenticated_state) storage_key = Some fresh_text"
    "isAuthenticated authenticated_state = True"
    "clock authenticated_state (Suc (clock_reads authenticated_state))
       = clock authenticated_state (clock_reads authenticated_state)"
    by (simp_all add: authenticated_state_def with_solana_def stored_state_def demo_state_def
        getItem_def)
  note T = forceReauth_restarts_loading [OF d]
  have t: "timers (forceReauth authenticated_state) = [(UpdateProgress 100000000, 50)]"
    by (simp add: forceReauth_def startLoadingSequence_def updateProgress_def Date_now_def
        setTimeout_def dispatchEvent_def clearStoredConnection_def Let_def progress_of_def
        authenticated_state_def with_solana_def stored_state_def demo_state_def demo_page_def)
  from T e t show ?thesis by blast
qed

text \<open>
  The claim fails on the controller without session persistence: its \<open>forceReauth\<close>
  dispatches nothing and leaves the store as it is.
\<close>

theorem forceReauth_legacy_silent:
  "isAuthenticated authenticated_state = True
   \<and> dispatched (forceReauth_legacy authenticated_state) = [walletConnected demo_wallet]
   \<and> walletDisconnected \<notin> set (dispatched (forceReauth_legacy authenticated_state))
   \<and> getItem (localStorage (forceReauth_legacy authenticated_state)) storage_key
        = Some fresh_text"
  by (simp add: forceReauth_legacy_def startLoadingSequence_frame Let_def
      authenticated_state_def with_solana_def stored_state_def demo_state_def demo_page_def
      getItem_def)


section \<open>Connect attempts\<close>

lemma connectWallet_switch_window:
  "window s' = window s \<Longrightarrow> connectWallet_switch walletType s' = connectWallet_switch walletType s"
  by (simp add: connectWallet_switch_def connectPhantom_def connectPhantom_try_def
      connectSolflare_def connectSolflare_try_def connectMetaMask_def connectMetaMask_try_def)

lemma connectWallet_switch_set_button:
  "connectWallet_switch walletType (set_button w b s) = connectWallet_switch walletType s"
  by (rule connectWallet_switch_window) (simp add: set_button_def)

text \<open>
  C5. MetaMask: an error of the account request with code -32002 makes the attempt fail
  with the already-pending error. Phantom and Solflare have no such case: an error with
  that code and a message fails with the user-rejected error when the message contains
  the adapter's rejection text, and with the connection-failed error carrying the
  message otherwise.
\<close>

theorem pending_code_by_adapter:
  "(ethereum (window s) = Some q \<and> eth_isMetaMask q
      \<and> eth_request q ''eth_requestAccounts'' = Inl (Thrown (Some (- 32002)) msg)
     \<longrightarrow> connectMetaMask s = Inl (Error ''Connection request already pending'')
         \<and> connectWallet_switch ''metamask'' s = Inl (Error ''Connection request already pending''))
   \<and> (solana (window s) = Some p \<and> sol_isPhantom p
      \<and> sol_connect p False = Inl (Thrown (Some (- 32002)) (Some m))
     \<longrightarrow> connectPhantom s =
           Inl (if includes_str m ''User rejected'' then Error ''Connection rejected by user''
                else Error (''Connection failed: '' @ m)))
   \<and> (solflare (window s) = Some f
      \<and> sf_connect f = Inl (Thrown (Some (- 32002)) (Some m))
     \<longrightarrow> connectSolflare s =
           Inl (if includes_str m ''rejected'' then Error ''Connection rejected by user''
                else Error (''Connection failed: '' @ m)))"
  by (simp add: connectWallet_switch_def connectMetaMask_def connectMetaMask_try_def
      connectPhantom_def connectPhantom_try_def connectSolflare_def connectSolflare_try_def)

theorem pending_code_by_adapter_witness:
  "ethereum (window pending_state) = Some metamask_pending
   \<and> solana (window pending_state) = Some phantom_pending
   \<and> solflare (window pending_state) = Some solflare_pending
   \<and> connectMetaMask pending_state = Inl (Error ''Connection request already pending'')
   \<and> connectPhantom pending_state = Inl (Error ''Connection failed: Request already pending'')
   \<and> connectSolflare pending_state = Inl (Error ''Connection failed: Request already pending'')"
proof -
  have h: "ethereum (window pending_state) = Some metamask_pending"
    "eth_isMetaMask metamask_pending"
    "eth_request metamask_pending ''eth_requestAccounts''
       = Inl (Thrown (Some (- 32002)) (Some ''Already processing eth_requestAccounts''))"
    "solana (window pending_state) = Some phantom_pending" "sol_isPhantom phantom_pending"
    "sol_connect phantom_pending False
       = Inl (Thrown (Some (- 32002)) (Some ''Request already pending''))"
    "solflare (window pending_state) = Some solflare_pending"
    "sf_connect solflare_pending = Inl (Thrown (Some (- 32002)) (Some ''Request already pending''))"
    by (simp_all add: pending_state_def metamask_pending_def phantom_pending_def
        solflare_pending_def)
  have i: "\<not> includes_str ''Request already pending'' ''User rejected''"
    "\<not> includes_str ''Request already pending'' ''rejected''"
    by simp_all
  note T = pending_code_by_adapter [of pending_state metamask_pending
      "Some ''Already processing eth_requestAccounts''" phantom_pending
      "''Request already pending''" solflare_pending]
  from T h i show ?thesis by simp
qed

text \<open>
  The claim fails for Phantom: its provider throws the error with code -32002 and the
  attempt fails with the connection-failed error, not with the already-pending one.
\<close>

theorem phantom_pending_is_generic:
  "sol_connect phantom_pending False
      = Inl (Thrown (Some (- 32002)) (Some ''Request already pending''))
   \<and> connectPhantom (with_solana phantom_pending demo_state)
      = Inl (Error ''Connection failed: Request already pending'')
   \<and> connectPhantom (with_solana phantom_pending demo_state)
      \<noteq> Inl (Error ''Connection request already pending'')"
  by (simp add: connectPhantom_def connectPhantom_try_def with_solana_def phantom_pending_def)


lemma set_button_frame:
  "localStorage (set_button w b s) = localStorage s"
  "isAuthenticated (set_button w b s) = isAuthenticated s"
  "connectedWallet (set_button w b s) = connectedWallet s"
  "dispatched (set_button w b s) = dispatched s"
  "timers (set_button w b s) = timers s"
  "clock (set_button w b s) = clock s"
  "clock_reads (set_button w b s) = clock_reads s"
  "buttons (document (set_button w b s)) = (buttons (document s))(w \<mapsto> b)"
  by (simp_all add: set_button_def)

lemma setTimeout_frame:
  "localStorage (setTimeout cb d s) = localStorage s"
  "isAuthenticated (setTimeout cb d s) = isAuthenticated s"
  "connectedWallet (setTimeout cb d s) = connectedWallet s"
  "dispatched (setTimeout cb d s) = dispatched s"
  "document (setTimeout cb d s) = document s"
  by (simp_all add: setTimeout_def)

lemma dispatchEvent_frame:
  "localStorage (dispatchEvent e s) = localStorage s"
  "isAuthenticated (dispatchEvent e s) = isAuthenticated s"
  "connectedWallet (dispatchEvent e s) = connectedWallet s"
  "dispatched (dispatchEvent e s) = dispatched s @ [e]"
  "document (dispatchEvent e s) = document s"
  by (simp_all add: dispatchEvent_def)

lemma connectWallet_failure_frame:
  assumes "connectWallet_switch walletType s = Inl e"
  shows "localStorage (connectWallet P walletType s) = localStorage s"
    "isAuthenticated (connectWallet P walletType s) = isAuthenticated s"
    "connectedWallet (connectWallet P walletType s) = connectedWallet s"
    "dispatched (connectWallet P walletType s) = dispatched s"
    "localStorage (connectWallet_legacy walletType s) = localStorage s"
  using assms
  by (simp_all add: connectWallet_def connectWallet_legacy_def Let_def
      connectWallet_switch_set_button set_button_frame setTimeout_frame dispatchEvent_frame split: option.splits)

lemma not_detected_not_rejected:
  "\<not> includes_str phantom_not_detected ''User rejected''"
  "\<not> includes_str solflare_not_detected ''rejected''"
  by (simp_all add: phantom_not_detected_def solflare_not_detected_def)

lemma missing_provider_adapters:
  "solana (window s) = None \<Longrightarrow>
     connectPhantom s = Inl (Error (''Connection failed: '' @ phantom_not_detected))"
  "solflare (window s) = None \<Longrightarrow>
     connectSolflare s = Inl (Error (''Connection failed: '' @ solflare_not_detected))"
  "ethereum (window s) = None \<Longrightarrow>
     connectMetaMask s = Inl (Error (''Connection failed: '' @ metamask_not_detected))"
  by (simp_all add: connectPhantom_def connectPhantom_try_def connectSolflare_def
      connectSolflare_try_def connectMetaMask_def connectMetaMask_try_def new_Error_def
      not_detected_not_rejected)

text \<open>
  C6. With the provider object of the chosen wallet undefined, the adapter's own handler
  catches the not-detected error and the attempt fails with the connection-failed error
  that carries the not-detected message; \<open>connectWallet\<close> leaves the store, the
  authentication flag, the connected wallet and the dispatched events as they were.
\<close>

theorem missing_provider_fails_without_record:
  assumes "walletType = ''phantom'' \<and> solana (window s) = None
         \<or> walletType = ''solflare'' \<and> solflare (window s) = None
         \<or> walletType = ''metamask'' \<and> ethereum (window s) = None"
  shows "connectWallet_switch walletType s =
           Inl (Error (''Connection failed: '' @
                  (if walletType = ''phantom'' then phantom_not_detected
                   else if walletType = ''solflare'' then solflare_not_detected
                   else metamask_not_detected)))
       \<and> localStorage (connectWallet P walletType s) = localStorage s
       \<and> isAuthenticated (connectWallet P walletType s) = isAuthenticated s
       \<and> connectedWallet (connectWallet P walletType s) = connectedWallet s
       \<and> dispatched (connectWallet P walletType s) = dispatched s"
proof -
  have sw: "connectWallet_switch walletType s =
           Inl (Error (''Connection failed: '' @
                  (if walletType = ''phantom'' then phantom_not_detected
                   else if walletType = ''solflare'' then solflare_not_detected
                   else metamask_not_detected)))"
    using assms by (auto simp add: connectWallet_switch_def missing_provider_adapters)
  show ?thesis
    using connectWallet_failure_frame [OF sw] sw by simp
qed

theorem missing_provider_fails_without_record_witness:
  "solana (window demo_state) = None \<and> solflare (window demo_state) = None
   \<and> ethereum (window demo_state) = None
   \<and> connectWallet_switch ''phantom'' demo_state =
       Inl (Error (''Connection failed: '' @ phantom_not_detected))
   \<and> connectWallet_switch ''solflare'' demo_state =
       Inl (Error (''Connection failed: '' @ solflare_not_detected))
   \<and> connectWallet_switch ''metamask'' demo_state =
       Inl (Error (''Connection failed: '' @ metamask_not_detected))
   \<and> localStorage (connectWallet demo_platform ''phantom'' demo_state) = localStorage demo_state
   \<and> localStorage (connectWallet demo_platform ''solflare'' demo_state) = localStorage demo_state
   \<and> localStorage (connectWallet demo_platform ''metamask'' demo_state) = localStorage demo_state
   \<and> buttons (document (connectWallet demo_platform ''phantom'' demo_state)) ''phantom''
       = Some (connection_failed (connecting demo_button))"
proof -
  have h: "solana (window demo_state) = None" "solflare (window demo_state) = None"
    "ethereum (window demo_state) = None"
    by (simp_all add: demo_state_def)
  have a: "''phantom'' = ''phantom'' \<and> solana (window demo_state) = None
         \<or> ''phantom'' = ''solflare'' \<and> solflare (window demo_state) = None
         \<or> ''phantom'' = ''metamask'' \<and> ethereum (window demo_state) = None"
    and b: "''solflare'' = ''phantom'' \<and> solana (window demo_state) = None
         \<or> ''solflare'' = ''solflare'' \<and> solflare (window demo_state) = None
         \<or> ''solflare'' = ''metamask'' \<and> ethereum (window demo_state) = None"
    and c: "''metamask'' = ''phantom'' \<and> solana (window demo_state) = None
         \<or> ''metamask'' = ''solflare'' \<and> solflare (window demo_state) = None
         \<or> ''metamask'' = ''metamask'' \<and> ethereum (window demo_state) = None"
    using h by simp_all
  note T1 = missing_provider_fails_without_record [OF a, of demo_platform]
  note T2 = missing_provider_fails_without_record [OF b, of demo_platform]
  note T3 = missing_provider_fails_without_record [OF c, of demo_platform]
  have sw: "connectWallet_switch ''phantom'' demo_state =
       Inl (Error (''Connection failed: '' @ phantom_not_detected))"
    "connectWallet_switch ''solflare'' demo_state =
       Inl (Error (''Connection failed: '' @ solflare_not_detected))"
    "connectWallet_switch ''metamask'' demo_state =
       Inl (Error (''Connection failed: '' @ metamask_not_detected))"
    using T1 T2 T3 by simp_all
  have bt: "buttons (document demo_state) ''phantom'' = Some demo_button"
    by (simp add: demo_state_def demo_page_def)
  have f: "buttons (document (connectWallet demo_platform ''phantom'' demo_state)) ''phantom''
       = Some (connection_failed (connecting demo_button))"
    using sw(1) bt
    by (simp add: connectWallet_def Let_def
        connectWallet_switch_set_button set_button_frame setTimeout_frame dispatchEvent_frame)
  from T1 T2 T3 h sw f show ?thesis by blast
qed

text \<open>
  The claim's error kind fails: without a Phantom provider the attempt does not fail with
  the not-detected error but with the connection-failed error around its message, the
  same failure as that of a provider whose \<open>connect()\<close> throws an error with that message.
\<close>

theorem missing_provider_is_connection_failed:
  "solana (window demo_state) = None
   \<and> connectPhantom demo_state = Inl (Error (''Connection failed: '' @ phantom_not_detected))
   \<and> connectPhantom demo_state \<noteq> Inl (Error phantom_not_detected)
   \<and> connectPhantom demo_state = connectPhantom (with_solana phantom_missing_thrower demo_state)"
  by (simp add: connectPhantom_def connectPhantom_try_def new_Error_def not_detected_not_rejected
      with_solana_def phantom_missing_thrower_def demo_state_def)

text \<open>
  C7. Solflare: when \<open>connect()\<close> resolves to a response without a public key, the
  adapter takes the provider's own \<open>publicKey\<close> property when it is present and otherwise
  the \<open>publicKey\<close> of the nested wallet object; when the key so taken prints as a
  non-empty text, the attempt returns a wallet of type solflare whose address and public
  key are that non-empty text.
\<close>

theorem solflare_fallback_key:
  assumes "solflare (window s) = Some p" and "sf_connect p = Inr response"
    and "\<not> truthy (response_publicKey response)"
    and "(truthy (sf_publicKey p) \<and> toString (sf_publicKey p) \<noteq> [])
         \<or> (\<not> truthy (sf_publicKey p)
             \<and> (\<exists>w. sf_wallet p = Some w \<and> truthy (sfw_publicKey w)
                    \<and> toString (sfw_publicKey w) \<noteq> []))"
  shows "\<exists>w. connectSolflare s = Inr w \<and> type w = ''solflare'' \<and> address w \<noteq> []
            \<and> publicKey w = address w
            \<and> (if truthy (sf_publicKey p) then address w = toString (sf_publicKey p)
               else \<exists>sw. sf_wallet p = Some sw \<and> address w = toString (sfw_publicKey sw))"
proof (cases "truthy (sf_publicKey p)")
  case True
  then have "toString (sf_publicKey p) \<noteq> []"
    using assms(4) by blast
  with True assms(1-3) show ?thesis
    by (simp add: connectSolflare_def connectSolflare_try_def Let_def)
next
  case False
  with assms(4) obtain sw where "sf_wallet p = Some sw" "truthy (sfw_publicKey sw)"
    "toString (sfw_publicKey sw) \<noteq> []" by blast
  with False assms(1-3) show ?thesis
    by (simp add: connectSolflare_def connectSolflare_try_def Let_def)
qed

theorem solflare_fallback_key_witness:
  "solflare (window (demo_state\<lparr>window := \<lparr>solana = None, ethereum = None,
        solflare = Some solflare_fallback\<rparr>\<rparr>)) = Some solflare_fallback
   \<and> sf_connect solflare_fallback = Inr (Resp KUndefined)
   \<and> truthy (response_publicKey (Resp KUndefined)) = False
   \<and> truthy (sf_publicKey solflare_fallback)
   \<and> connectSolflare (demo_state\<lparr>window := \<lparr>solana = None, ethereum = None,
        solflare = Some solflare_fallback\<rparr>\<rparr>)
       = Inr \<lparr>type = ''solflare'', publicKey = ''So1f'', address = ''So1f''\<rparr>
   \<and> sf_connect solflare_nested = Inr NoResponse
   \<and> truthy (sf_publicKey solflare_nested) = False
   \<and> sf_wallet solflare_nested = Some \<lparr>sfw_publicKey = KStr ''So1n''\<rparr>
   \<and> connectSolflare (demo_state\<lparr>window := \<lparr>solana = None, ethereum = None,
        solflare = Some solflare_nested\<rparr>\<rparr>)
       = Inr \<lparr>type = ''solflare'', publicKey = ''So1n'', address = ''So1n''\<rparr>"
proof -
  let ?s = "demo_state\<lparr>window := \<lparr>solana = None, ethereum = None,
        solflare = Some solflare_fallback\<rparr>\<rparr>"
  let ?n = "demo_state\<lparr>window := \<lparr>solana = None, ethereum = None,
        solflare = Some solflare_nested\<rparr>\<rparr>"
  have h1: "solflare (window ?s) = Some solflare_fallback" by simp
  have h2: "sf_connect solflare_fallback = Inr (Resp KUndefined)"
    by (simp add: solflare_fallback_def)
  have h3: "\<not> truthy (response_publicKey (Resp KUndefined))"
    by (simp add: response_publicKey_def)
  have k: "truthy (sf_publicKey solflare_fallback)"
    "toString (sf_publicKey solflare_fallback) = ''So1f''"
    by (simp_all add: solflare_fallback_def)
  then have h4: "(truthy (sf_publicKey solflare_fallback)
                   \<and> toString (sf_publicKey solflare_fallback) \<noteq> [])
         \<or> (\<not> truthy (sf_publicKey solflare_fallback)
             \<and> (\<exists>w. sf_wallet solflare_fallback = Some w \<and> truthy (sfw_publicKey w)
                    \<and> toString (sfw_publicKey w) \<noteq> []))" by simp
  from solflare_fallback_key [OF h1 h2 h3 h4] k
  obtain w where w: "connectSolflare ?s = Inr w" "type w = ''solflare''"
    "publicKey w = address w" "address w = ''So1f''"
    by auto
  then have r1: "connectSolflare ?s
                  = Inr \<lparr>type = ''solflare'', publicKey = ''So1f'', address = ''So1f''\<rparr>"
    by (cases w) simp
  have n1: "solflare (window ?n) = Some solflare_nested" by simp
  have n2: "sf_connect solflare_nested = Inr NoResponse"
    by (simp add: solflare_nested_def)
  have n3: "\<not> truthy (response_publicKey NoResponse)"
    by (simp add: response_publicKey_def)
  have nk: "truthy (sf_publicKey solflare_nested) = False"
    "sf_wallet solflare_nested = Some \<lparr>sfw_publicKey = KStr ''So1n''\<rparr>"
    by (simp_all add: solflare_nested_def)
  then have n4: "(truthy (sf_publicKey solflare_nested)
                   \<and> toString (sf_publicKey solflare_nested) \<noteq> [])
         \<or> (\<not> truthy (sf_publicKey solflare_nested)
             \<and> (\<exists>w. sf_wallet solflare_nested = Some w \<and> truthy (sfw_publicKey w)
                    \<and> toString (sfw_publicKey w) \<noteq> []))" by simp
  from solflare_fallback_key [OF n1 n2 n3 n4] nk
  obtain u where u: "connectSolflare ?n = Inr u" "type u = ''solflare''"
    "publicKey u = address u" "address u = ''So1n''"
    by auto
  then have r2: "connectSolflare ?n
                  = Inr \<lparr>type = ''solflare'', publicKey = ''So1n'', address = ''So1n''\<rparr>"
    by (cases u) simp
  from h1 h2 h3 k r1 n2 nk r2 show ?thesis by simp
qed

text \<open>
  The claim fails when the provider's own key is an object that prints as the empty text
  while the nested wallet's key is present and non-empty: the response has no key, the
  own key is taken because an object is truthy, and the returned address is empty.
\<close>

theorem solflare_blank_own_key_wins:
  "sf_connect solflare_blank_key = Inr NoResponse
   \<and> truthy (response_publicKey NoResponse) = False
   \<and> sf_wallet solflare_blank_key = Some \<lparr>sfw_publicKey = KStr ''So1n''\<rparr>
   \<and> truthy (KStr ''So1n'') \<and> toString (KStr ''So1n'') = ''So1n''
   \<and> connectSolflare (demo_state\<lparr>window := \<lparr>solana = None, ethereum = None,
        solflare = Some solflare_blank_key\<rparr>\<rparr>)
       = Inr \<lparr>type = ''solflare'', publicKey = [], address = []\<rparr>"
  by (simp add: connectSolflare_def connectSolflare_try_def Let_def response_publicKey_def
      solflare_blank_key_def)

lemma storeWalletConnection_stored:
  assumes "\<not> rejects_writes (localStorage s)"
  shows "getItem (localStorage (storeWalletConnection P w s)) storage_key
           = Some (JSON_stringify P (connectionData_of w (clock s (clock_reads s))))"
    "isAuthenticated (storeWalletConnection P w s) = isAuthenticated s"
    "connectedWallet (storeWalletConnection P w s) = connectedWallet s"
    "dispatched (storeWalletConnection P w s) = dispatched s"
  using assms
  by (simp_all add: storeWalletConnection_def Date_now_def setItem_def getItem_def Let_def)

lemma connectWallet_legacy_storage:
  "localStorage (connectWallet_legacy walletType s) = localStorage s"
  by (simp add: connectWallet_legacy_def Let_def set_button_frame setTimeout_frame
      dispatchEvent_frame split: option.splits sum.splits)

text \<open>
  C8. In the controller with session persistence, a connect attempt whose adapter
  returns a wallet, started from a button on the page with a store that accepts the
  write, leaves in the store the serialised record of that wallet with the clock reading
  as its timestamp, whatever was stored before; the controller is authenticated and the
  connected event is dispatched. The \<open>connectWallet\<close> of the controller without session
  persistence never changes the store.
\<close>

theorem successful_connect_stores_record:
  assumes "buttons (document s) walletType = Some b"
    and "connectWallet_switch walletType s = Inr w"
    and "\<not> rejects_writes (localStorage s)"
  shows "getItem (localStorage (connectWallet P walletType s)) storage_key
           = Some (JSON_stringify P (connectionData_of w (clock s (clock_reads s))))
       \<and> get_prop (connectionData_of w (clock s (clock_reads s))) ''timestamp''
           = Some (JNum (clock s (clock_reads s)))
       \<and> get_prop (connectionData_of w (clock s (clock_reads s))) ''walletType''
           = Some (JStr (type w))
       \<and> get_prop (connectionData_of w (clock s (clock_reads s))) ''address''
           = Some (JStr (address w))
       \<and> isAuthenticated (connectWallet P walletType s) = True
       \<and> connectedWallet (connectWallet P walletType s) = Some w
       \<and> dispatched (connectWallet P walletType s) = dispatched s @ [walletConnected w]
       \<and> localStorage (connectWallet_legacy walletType s) = localStorage s"
proof -
  let ?s2 = "(set_button walletType (connecting b) s)\<lparr>connectedWallet := Some w, isAuthenticated := True\<rparr>"
  have w2: "\<not> rejects_writes (localStorage ?s2)"
    using assms(3) by (simp add: set_button_frame)
  have eq: "connectWallet P walletType s =
      setTimeout TransitionToMainContent 1500
        (dispatchEvent (walletConnected w)
          (set_button walletType
             ((connecting b)\<lparr>walletName := ''CONNECTED'', connectText := ''SUCCESS'',
                 background := ''linear-gradient(135deg, rgba(0, 136, 254, 0.3), rgba(0, 136, 254, 0.1))'',
                 borderColor := ''#0088fe'',
                 boxShadow := ''0 0 20px rgba(0, 136, 254, 0.6)''\<rparr>)
             (storeWalletConnection P w ?s2)))"
    using assms(1,2) by (simp add: connectWallet_def Let_def connectWallet_switch_set_button)
  show ?thesis
    using storeWalletConnection_stored [OF w2, of P w]
    by (simp add: eq connectionData_of_def connectWallet_legacy_storage
        set_button_frame setTimeout_frame dispatchEvent_frame)
qed

lemma phantom_ok_connects:
  "connectWallet_switch ''phantom'' (with_solana phantom_ok s) = Inr demo_wallet"
  "connectPhantom (with_solana phantom_ok s) = Inr demo_wallet"
  by (simp_all add: connectWallet_switch_def connectPhantom_def connectPhantom_try_def
      with_solana_def phantom_ok_def response_publicKey_def demo_wallet_def)

theorem successful_connect_stores_record_witness:
  "getItem (localStorage (with_solana phantom_ok (stored_state stale_text))) storage_key
     = Some stale_text
   \<and> connectWallet_switch ''phantom'' (with_solana phantom_ok (stored_state stale_text))
     = Inr demo_wallet
   \<and> getItem (localStorage (connectWallet demo_platform ''phantom''
        (with_solana phantom_ok (stored_state stale_text)))) storage_key = Some fresh_text
   \<and> connectedWallet (connectWallet demo_platform ''phantom''
        (with_solana phantom_ok (stored_state stale_text))) = Some demo_wallet"
proof -
  let ?s = "with_solana phantom_ok (stored_state stale_text)"
  have h1: "buttons (document ?s) ''phantom'' = Some demo_button"
    by (simp add: with_solana_def stored_state_def demo_state_def demo_page_def)
  have h2: "connectWallet_switch ''phantom'' ?s = Inr demo_wallet"
    by (rule phantom_ok_connects)
  have h3: "\<not> rejects_writes (localStorage ?s)"
    by (simp add: with_solana_def stored_state_def demo_state_def)
  have p: "getItem (localStorage ?s) storage_key = Some stale_text"
    by (simp add: with_solana_def stored_state_def demo_state_def getItem_def)
  have c: "clock ?s (clock_reads ?s) = 100000000"
    by (simp add: with_solana_def stored_state_def demo_state_def)
  have j: "JSON_stringify demo_platform (connectionData_of demo_wallet 100000000) = fresh_text"
    by (simp add: demo_platform_def connectionData_of_def)
  note T = successful_connect_stores_record [OF h1 h2 h3, of demo_platform]
  from T p h2 c j show ?thesis by simp
qed

text \<open>
  The claim fails on the controller without session persistence: a Phantom attempt
  succeeds, the controller is authenticated, and nothing is stored.
\<close>

theorem legacy_connect_stores_nothing:
  "connectWallet_switch ''phantom'' (with_solana phantom_ok demo_state) = Inr demo_wallet
   \<and> isAuthenticated (connectWallet_legacy ''phantom'' (with_solana phantom_ok demo_state)) = True
   \<and> getItem (localStorage (connectWallet_legacy ''phantom'' (with_solana phantom_ok demo_state)))
        storage_key = None"
proof -
  have b: "buttons (document (with_solana phantom_ok demo_state)) ''phantom'' = Some demo_button"
    by (simp add: with_solana_def demo_state_def demo_page_def)
  have l: "localStorage (with_solana phantom_ok demo_state)
             = \<lparr>items = (\<lambda>k. None), rejects_writes = False\<rparr>"
    by (simp add: with_solana_def demo_state_def)
  show ?thesis
    using b l
    by (simp add: phantom_ok_connects connectWallet_legacy_def Let_def getItem_def
        connectWallet_switch_set_button set_button_frame setTimeout_frame dispatchEvent_frame)
qed

lemma connectWallet_success_storage:
  assumes "buttons (document s) walletType = Some b"
    and "connectWallet_switch walletType s = Inr w"
  shows "localStorage (connectWallet P walletType s)
           = localStorage (storeWalletConnection P w
               ((set_button walletType (connecting b) s)
                  \<lparr>connectedWallet := Some w, isAuthenticated := True\<rparr>))"
  using assms
  by (simp add: connectWallet_def Let_def connectWallet_switch_set_button
      set_button_frame setTimeout_frame dispatchEvent_frame)

text \<open>
  C10. Every wallet returned by an interactive adapter and every wallet set by silent
  verification has the same text as \<open>publicKey\<close> and as \<open>address\<close>: the printed key of the
  provider's response (Phantom), the printed key taken from the response, the provider's
  own property or its nested wallet (Solflare), the first account (MetaMask), and for
  silent verification the printed key of the trusted response, the first permitted
  account or the printed own key of the connected Solflare. The record that
  \<open>connectWallet\<close> stores is the serialised record of that wallet, which carries the text
  in both fields.
\<close>

theorem publicKey_equals_address:
  "(connectPhantom s = Inr w \<longrightarrow>
      (\<exists>p r. solana (window s) = Some p \<and> sol_connect p False = Inr r
          \<and> truthy (response_publicKey r)
          \<and> w = \<lparr>type = ''phantom'', publicKey = toString (response_publicKey r),
                  address = toString (response_publicKey r)\<rparr>))
   \<and> (connectSolflare s = Inr w \<longrightarrow>
      (\<exists>f r k. solflare (window s) = Some f \<and> sf_connect f = Inr r \<and> truthy k
          \<and> (k = response_publicKey r
              \<or> \<not> truthy (response_publicKey r) \<and> k = sf_publicKey f
              \<or> \<not> truthy (response_publicKey r) \<and> \<not> truthy (sf_publicKey f)
                 \<and> (\<exists>sw. sf_wallet f = Some sw \<and> k = sfw_publicKey sw))
          \<and> w = \<lparr>type = ''solflare'', publicKey = toString k, address = toString k\<rparr>))
   \<and> (connectMetaMask s = Inr w \<longrightarrow>
      (\<exists>q a as. ethereum (window s) = Some q
          \<and> eth_request q ''eth_requestAccounts'' = Inr (Some (a # as))
          \<and> w = \<lparr>type = ''metamask'', publicKey = a, address = a\<rparr>))
   \<and> (connectWallet_switch walletType s = Inr w \<longrightarrow>
      publicKey w = address w
      \<and> get_prop (connectionData_of w now) ''publicKey'' = Some (JStr (address w))
      \<and> get_prop (connectionData_of w now) ''address'' = Some (JStr (address w)))
   \<and> (buttons (document s) walletType = Some b \<and> connectWallet_switch walletType s = Inr w
       \<and> \<not> rejects_writes (localStorage s) \<longrightarrow>
      getItem (localStorage (connectWallet P walletType s)) storage_key
        = Some (JSON_stringify P (connectionData_of w (clock s (clock_reads s)))))
   \<and> (fst (verifyWalletConnection storedType s) \<longrightarrow>
      (\<exists>v. snd (verifyWalletConnection storedType s)
              = s\<lparr>connectedWallet := Some v, isAuthenticated := True\<rparr>
          \<and> publicKey v = address v
          \<and> (storedType = JStr ''phantom''
                \<and> (\<exists>p k. solana (window s) = Some p \<and> sol_connect p True = Inr (Resp k)
                       \<and> truthy k
                       \<and> v = \<lparr>type = ''phantom'', publicKey = toString k, address = toString k\<rparr>)
              \<or> storedType = JStr ''metamask''
                \<and> (\<exists>q a as. ethereum (window s) = Some q
                       \<and> eth_request q ''eth_accounts'' = Inr (Some (a # as))
                       \<and> v = \<lparr>type = ''metamask'', publicKey = a, address = a\<rparr>)
              \<or> storedType = JStr ''solflare''
                \<and> (\<exists>f. solflare (window s) = Some f \<and> sf_isConnected f
                       \<and> truthy (sf_publicKey f)
                       \<and> v = \<lparr>type = ''solflare'', publicKey = toString (sf_publicKey f),
                               address = toString (sf_publicKey f)\<rparr>))))"
proof -
  have ph: "connectPhantom s = Inr w \<longrightarrow>
      (\<exists>p r. solana (window s) = Some p \<and> sol_connect p False = Inr r
          \<and> truthy (response_publicKey r)
          \<and> w = \<lparr>type = ''phantom'', publicKey = toString (response_publicKey r),
                  address = toString (response_publicKey r)\<rparr>)"
    by (auto simp add: connectPhantom_def connectPhantom_try_def
        split: option.splits sum.splits if_splits)
  have sf: "connectSolflare s = Inr w \<longrightarrow>
      (\<exists>f r k. solflare (window s) = Some f \<and> sf_connect f = Inr r \<and> truthy k
          \<and> (k = response_publicKey r
              \<or> \<not> truthy (response_publicKey r) \<and> k = sf_publicKey f
              \<or> \<not> truthy (response_publicKey r) \<and> \<not> truthy (sf_publicKey f)
                 \<and> (\<exists>sw. sf_wallet f = Some sw \<and> k = sfw_publicKey sw))
          \<and> w = \<lparr>type = ''solflare'', publicKey = toString k, address = toString k\<rparr>)"
    by (auto simp add: connectSolflare_def connectSolflare_try_def Let_def
        split: option.splits sum.splits if_splits)
  have mm: "connectMetaMask s = Inr w \<longrightarrow>
      (\<exists>q a as. ethereum (window s) = Some q
          \<and> eth_request q ''eth_requestAccounts'' = Inr (Some (a # as))
          \<and> w = \<lparr>type = ''metamask'', publicKey = a, address = a\<rparr>)"
    by (auto simp add: connectMetaMask_def connectMetaMask_try_def
        split: option.splits sum.splits if_splits list.splits)
  have eqp: "publicKey w = address w" if "connectPhantom s = Inr w"
  proof -
    from ph that obtain k where "w = \<lparr>type = ''phantom'', publicKey = k, address = k\<rparr>"
      by blast
    then show ?thesis by simp
  qed
  have eqs: "publicKey w = address w" if "connectSolflare s = Inr w"
  proof -
    from sf that obtain k where "w = \<lparr>type = ''solflare'', publicKey = k, address = k\<rparr>"
      by blast
    then show ?thesis by simp
  qed
  have eqm: "publicKey w = address w" if "connectMetaMask s = Inr w"
  proof -
    from mm that obtain k where "w = \<lparr>type = ''metamask'', publicKey = k, address = k\<rparr>"
      by blast
    then show ?thesis by simp
  qed
  have sw: "connectWallet_switch walletType s = Inr w \<longrightarrow> publicKey w = address w"
    using eqp eqs eqm by (simp add: connectWallet_switch_def split: if_splits)
  have cd: "publicKey w = address w \<longrightarrow>
      get_prop (connectionData_of w now) ''publicKey'' = Some (JStr (address w))
      \<and> get_prop (connectionData_of w now) ''address'' = Some (JStr (address w))"
    by (simp add: connectionData_of_def)
  have st: "buttons (document s) walletType = Some b \<and> connectWallet_switch walletType s = Inr w
       \<and> \<not> rejects_writes (localStorage s) \<longrightarrow>
      getItem (localStorage (connectWallet P walletType s)) storage_key
        = Some (JSON_stringify P (connectionData_of w (clock s (clock_reads s))))"
  proof
    assume a: "buttons (document s) walletType = Some b \<and> connectWallet_switch walletType s = Inr w
       \<and> \<not> rejects_writes (localStorage s)"
    let ?s2 = "(set_button walletType (connecting b) s)
                 \<lparr>connectedWallet := Some w, isAuthenticated := True\<rparr>"
    have w2: "\<not> rejects_writes (localStorage ?s2)"
      using a by (simp add: set_button_frame)
    have "localStorage (connectWallet P walletType s)
            = localStorage (storeWalletConnection P w ?s2)"
      using a by (intro connectWallet_success_storage) simp_all
    then show "getItem (localStorage (connectWallet P walletType s)) storage_key
        = Some (JSON_stringify P (connectionData_of w (clock s (clock_reads s))))"
      using storeWalletConnection_stored(1) [OF w2, of P w] by (simp add: set_button_frame)
  qed
  have vf: "fst (verifyWalletConnection storedType s) \<longrightarrow>
      (\<exists>v. snd (verifyWalletConnection storedType s)
              = s\<lparr>connectedWallet := Some v, isAuthenticated := True\<rparr>
          \<and> publicKey v = address v
          \<and> (storedType = JStr ''phantom''
                \<and> (\<exists>p k. solana (window s) = Some p \<and> sol_connect p True = Inr (Resp k)
                       \<and> truthy k
                       \<and> v = \<lparr>type = ''phantom'', publicKey = toString k, address = toString k\<rparr>)
              \<or> storedType = JStr ''metamask''
                \<and> (\<exists>q a as. ethereum (window s) = Some q
                       \<and> eth_request q ''eth_accounts'' = Inr (Some (a # as))
                       \<and> v = \<lparr>type = ''metamask'', publicKey = a, address = a\<rparr>)
              \<or> storedType = JStr ''solflare''
                \<and> (\<exists>f. solflare (window s) = Some f \<and> sf_isConnected f
                       \<and> truthy (sf_publicKey f)
                       \<and> v = \<lparr>type = ''solflare'', publicKey = toString (sf_publicKey f),
                               address = toString (sf_publicKey f)\<rparr>)))"
  proof (cases "storedType = JStr ''phantom''")
    case True
    then show ?thesis
      by (auto simp add: verifyWalletConnection_def
          split: option.splits sum.splits response.splits)
  next
    case np: False
    show ?thesis
    proof (cases "storedType = JStr ''metamask''")
      case True
      then show ?thesis
        by (auto simp add: verifyWalletConnection_def
            split: option.splits sum.splits list.splits)
    next
      case nm: False
      show ?thesis
      proof (cases "storedType = JStr ''solflare''")
        case True
        then show ?thesis
          by (auto simp add: verifyWalletConnection_def split: option.splits)
      next
        case False
        with np nm show ?thesis
          by (simp add: verifyWalletConnection_def)
      qed
    qed
  qed
  show ?thesis
    apply (intro conjI)
         apply (rule ph)
        apply (rule sf)
       apply (rule mm)
      apply (use sw cd in blast)
     apply (rule st)
    apply (rule vf)
    done
qed

lemma wallets_state_connects:
  "connectPhantom wallets_state = Inr demo_wallet"
  "connectSolflare wallets_state
     = Inr \<lparr>type = ''solflare'', publicKey = ''So1f'', address = ''So1f''\<rparr>"
  "connectMetaMask wallets_state
     = Inr \<lparr>type = ''metamask'', publicKey = ''0xA1b2'', address = ''0xA1b2''\<rparr>"
  "connectWallet_switch ''phantom'' wallets_state = Inr demo_wallet"
  "fst (verifyWalletConnection (JStr ''phantom'') wallets_state)"
  "fst (verifyWalletConnection (JStr ''metamask'') wallets_state)"
  "fst (verifyWalletConnection (JStr ''solflare'') wallets_state)"
  by (simp_all add: connectWallet_switch_def connectPhantom_def connectPhantom_try_def
      connectSolflare_def connectSolflare_try_def connectMetaMask_def connectMetaMask_try_def
      verifyWalletConnection_def response_publicKey_def wallets_state_def
      phantom_ok_def solflare_connected_def metamask_ok_def demo_wallet_def)

lemma wallets_state_verified:
  "connectedWallet (snd (verifyWalletConnection (JStr ''phantom'') wallets_state))
     = Some demo_wallet"
  "connectedWallet (snd (verifyWalletConnection (JStr ''metamask'') wallets_state))
     = Some \<lparr>type = ''metamask'', publicKey = ''0xA1b2'', address = ''0xA1b2''\<rparr>"
  "connectedWallet (snd (verifyWalletConnection (JStr ''solflare'') wallets_state))
     = Some \<lparr>type = ''solflare'', publicKey = ''So1f'', address = ''So1f''\<rparr>"
  by (simp_all add: verifyWalletConnection_def wallets_state_def
      phantom_ok_def solflare_connected_def metamask_ok_def demo_wallet_def)

theorem publicKey_equals_address_witness:
  "connectPhantom wallets_state = Inr demo_wallet
   \<and> publicKey demo_wallet = address demo_wallet
   \<and> address demo_wallet = ''9xQe''
   \<and> connectSolflare wallets_state
       = Inr \<lparr>type = ''solflare'', publicKey = ''So1f'', address = ''So1f''\<rparr>
   \<and> connectMetaMask wallets_state
       = Inr \<lparr>type = ''metamask'', publicKey = ''0xA1b2'', address = ''0xA1b2''\<rparr>
   \<and> connectWallet_switch ''phantom'' wallets_state = Inr demo_wallet
   \<and> get_prop (connectionData_of demo_wallet 100000000) ''publicKey''
       = Some (JStr (address demo_wallet))
   \<and> get_prop (connectionData_of demo_wallet 100000000) ''address''
       = Some (JStr (address demo_wallet))
   \<and> getItem (localStorage (connectWallet demo_platform ''phantom'' wallets_state)) storage_key
       = Some fresh_text
   \<and> fst (verifyWalletConnection (JStr ''phantom'') wallets_state)
   \<and> connectedWallet (snd (verifyWalletConnection (JStr ''phantom'') wallets_state))
       = Some demo_wallet
   \<and> fst (verifyWalletConnection (JStr ''metamask'') wallets_state)
   \<and> connectedWallet (snd (verifyWalletConnection (JStr ''metamask'') wallets_state))
       = Some \<lparr>type = ''metamask'', publicKey = ''0xA1b2'', address = ''0xA1b2''\<rparr>
   \<and> fst (verifyWalletConnection (JStr ''solflare'') wallets_state)
   \<and> connectedWallet (snd (verifyWalletConnection (JStr ''solflare'') wallets_state))
       = Some \<lparr>type = ''solflare'', publicKey = ''So1f'', address = ''So1f''\<rparr>"
proof -
  note T = publicKey_equals_address
      [of wallets_state demo_wallet "''phantom''" 100000000 demo_button demo_platform
          "JStr ''phantom''"]
  have b: "buttons (document wallets_state) ''phantom'' = Some demo_button"
    "\<not> rejects_writes (localStorage wallets_state)"
    "clock wallets_state (clock_reads wallets_state) = 100000000"
    by (simp_all add: wallets_state_def demo_state_def demo_page_def)
  have j: "JSON_stringify demo_platform (connectionData_of demo_wallet 100000000) = fresh_text"
    by (simp add: demo_platform_def connectionData_of_def)
  have a: "address demo_wallet = ''9xQe''" by (simp add: demo_wallet_def)
  have p: "publicKey demo_wallet = address demo_wallet
      \<and> get_prop (connectionData_of demo_wallet 100000000) ''publicKey''
          = Some (JStr (address demo_wallet))
      \<and> get_prop (connectionData_of demo_wallet 100000000) ''address''
          = Some (JStr (address demo_wallet))"
    using T wallets_state_connects(4) by blast
  have "getItem (localStorage (connectWallet demo_platform ''phantom'' wallets_state)) storage_key
       = Some (JSON_stringify demo_platform
                 (connectionData_of demo_wallet (clock wallets_state (clock_reads wallets_state))))"
    using T b(1,2) wallets_state_connects(4) by blast
  then have g: "getItem (localStorage (connectWallet demo_platform ''phantom'' wallets_state))
                  storage_key = Some fresh_text"
    by (simp add: b(3) j)
  from p a g wallets_state_connects wallets_state_verified show ?thesis by simp
qed

end
